theory Spec2Isabelle
  imports Complex_Main "HOL-Library.Sublist"
begin

section \<open>The OCR training orchestrator (train_ocr.py)\<close>

text \<open>
  The file under verification is a straight-line orchestration script: it builds two
  transform pipelines, a model, a data module, a training wrapper, two callbacks, a
  logger and a trainer, creates two directories, and calls \<open>fit\<close>.

  The embedding keeps every object as the record of the arguments it was built from,
  every call into code outside the file as an entry of a trace, and every exception
  such a call may raise as an error result that ends the run.
\<close>

subsection \<open>Transform pipelines\<close>

text \<open>
  One constructor per albumentations class the source names; the arguments are the
  keyword arguments of the source, in source order. Decimal literals are carried as
  the numbers they denote and are never computed with. \<open>OtherTransform\<close> stands for
  a step built outside this file.

  \<^item> \<open>Perspective fit_output scale pad_val\<close>
  \<^item> \<open>Affine scale_x scale_y fit_output p\<close>
  \<^item> \<open>ColorJitter brightness contrast p\<close>
  \<^item> \<open>ISONoise intensity p\<close>
  \<^item> \<open>MotionBlur blur_limit\<close>
  \<^item> \<open>RandomShadow p\<close>
  \<^item> \<open>RandomSunFlare src_radius\<close>
\<close>

datatype transform =
    OneOf "transform list"
  | Perspective bool "real \<times> real" "int \<times> int \<times> int"
  | Affine "real \<times> real" "real \<times> real" bool real
  | ColorJitter real real real
  | ISONoise "int list" real
  | MotionBlur int
  | RandomShadow real
  | RandomSunFlare int
  | OtherTransform string

datatype compose = Compose "transform list"

datatype aug_transform = AugTransform compose

fun steps :: "aug_transform \<Rightarrow> transform list" where
  "steps (AugTransform (Compose ts)) = ts"

text \<open>The local list \<open>aug_transforms\<close> of \<open>get_train_transform\<close>.\<close>

definition aug_transforms :: "transform list" where
  "aug_transforms =
     [ OneOf [ Perspective False (0.015, 0.1) (255, 255, 255),
               Affine (0.2, 1.5) (0.3, 1.5) True 0.65 ],
       ColorJitter 0.8 0.1 0.75,
       ISONoise [1, 1] 0.15,
       MotionBlur 10,
       RandomShadow 0.25,
       RandomSunFlare 20 ]"

subsection \<open>Configuration\<close>

text \<open>
  A path as \<open>pathlib\<close> holds it: absolute or relative, and its components, which
  may be \<open>..\<close>: \<open>pathlib\<close> keeps them and leaves them to the operating system.
\<close>

datatype path = Abs "string list" | Rel "string list"

fun joinpath :: "path \<Rightarrow> string \<Rightarrow> path" where
  "joinpath (Abs ds) d = Abs (ds @ [d])"
| "joinpath (Rel ds) d = Rel (ds @ [d])"

fun slashes :: "string list \<Rightarrow> string" where
  "slashes [] = []"
| "slashes [d] = d"
| "slashes (d # e # ds) = d @ ''/'' @ slashes (e # ds)"

fun path_str :: "path \<Rightarrow> string" where
  "path_str (Abs ds) = ''/'' @ slashes ds"
| "path_str (Rel ds) = (if ds = [] then ''.'' else slashes ds)"

text \<open>
  Modelled from the spec: the class \<open>TrainConfig\<close> of module \<open>config_data\<close> is not part
  of the sources at hand. The record has the fields \<open>main\<close> reads, with the types the
  spec's RunConfig gives them; \<open>exp_dir\<close> is carried as the path
  \<open>pathlib.Path(train_config.exp_dir)\<close> parses it to. The optimizer and scheduler
  settings are opaque.
\<close>

record ocr_config =
  image_dir :: string
  train_batch_size :: int
  valid_batch_size :: int

record ('o, 's) train_config =
  seed :: int
  ocr :: ocr_config
  train_size :: real
  num_workers :: int
  exp_dir :: path
  optimizer :: 'o
  scheduler :: 's
  val_check_interval :: int
  check_val_every_n_epoch :: int
  flush_logs_every_n_steps :: int
  fast_dev_run :: bool
  precision :: int
  max_epochs :: int

subsection \<open>The objects the orchestrator builds\<close>

datatype crnn = CRNN string

record data_module =
  dm_image_dir :: string
  dm_train_batch_size :: int
  dm_valid_batch_size :: int
  dm_seed :: int
  dm_train_size :: real
  dm_num_workers :: int
  dm_train_transforms :: aug_transform
  dm_val_transforms :: aug_transform

record ('o, 's) detector_trainer =
  dt_model :: crnn
  dt_optimizer_config :: 'o
  dt_scheduler_config :: 's
  dt_target_metric :: string

record model_checkpoint =
  mc_monitor :: string
  mc_dirpath :: path
  mc_filename :: string
  mc_verbose :: bool
  mc_save_last :: bool
  mc_every_n_train_steps :: int
  mc_save_top_k :: int
  mc_mode :: string
  mc_save_weights_only :: bool

datatype lr_monitor = LearningRateMonitor string

datatype tb_logger = TensorBoardLogger string

datatype callback = CheckpointCallback model_checkpoint | LrCallback lr_monitor

record trainer =
  tr_amp_backend :: string
  tr_gpus :: "int option"
  tr_logger :: tb_logger
  tr_auto_select_gpus :: bool
  tr_benchmark :: bool
  tr_check_val_every_n_epoch :: int
  tr_flush_logs_every_n_steps :: int
  tr_default_root_dir :: string
  tr_deterministic :: bool
  tr_fast_dev_run :: bool
  tr_progress_bar_refresh_rate :: int
  tr_precision :: int
  tr_max_epochs :: int
  tr_val_check_interval :: int
  tr_callbacks :: "callback list"

subsection \<open>Calls, errors and the world\<close>

text \<open>Every call the script makes into code outside it, with the arguments it passes.\<close>

datatype ('o, 's) call =
    Os_chdir "string list"
  | Seed_everything int
  | New_CRNN string
  | Get_ocr_valid_transform_list
  | New_AugTransform compose
  | New_OCRDetectionDataModule data_module
  | Path_mkdir path
  | New_OCRDetectorTrainer "('o, 's) detector_trainer"
  | New_ModelCheckpoint model_checkpoint
  | New_LearningRateMonitor string
  | New_TensorBoardLogger string
  | Cuda_is_available
  | Warnings_warn string
  | New_Trainer trainer
  | Trainer_fit trainer "('o, 's) detector_trainer" data_module

text \<open>The classes of \<open>OSError\<close> a \<open>mkdir\<close> can end with; the messages are not kept.\<close>

datatype os_error =
    FileExistsError
  | NotADirectoryError
  | FileNotFoundError
  | OtherOSError

datatype ('o, 's) error =
    Raised "('o, 's) call"
  | OSError os_error

datatype node = Dir | File

type_synonym fsys = "string list \<Rightarrow> node option"

text \<open>
  What the script cannot see in its own text: the directory the process was started
  in, whether CUDA is there, the alphabet and the canonical transform list of the
  sibling modules, and which of the calls raise (\<open>raises n\<close>: the call made when
  \<open>n\<close> calls are already in the trace raises). Any call may raise: a constructor, the
  CUDA query, \<open>warnings.warn\<close> (under a filter that turns warnings into errors), and
  \<open>mkdir\<close> for reasons the file system below does not show (permissions, a name that
  is too long, a read-only medium); \<open>fault_depth n\<close> is then the number of path
  components that \<open>mkdir\<close> got through before the error.

  Modelled from the spec: \<open>get_ocr_valid_transform_list\<close> of module \<open>transforms\<close> and
  \<open>PLATE_ALPHABET\<close> of module \<open>dataset\<close> are not part of the sources at hand; the first
  is the list of canonical preprocessing steps, the same list at every call, the second
  a fixed alphabet.
\<close>

record env =
  original_cwd :: "string list"
  cuda_is_available :: bool
  PLATE_ALPHABET :: string
  ocr_valid_transform_list :: "transform list"
  raises :: "nat \<Rightarrow> bool"
  fault_depth :: "nat \<Rightarrow> nat"

record ('o, 's) world =
  cwd :: "string list"
  fs :: fsys
  trace :: "('o, 's) call list"

type_synonym ('o, 's, 'a) prog =
  "('o, 's) world \<Rightarrow> (('o, 's) error + 'a) \<times> ('o, 's) world"

definition ret :: "'a \<Rightarrow> ('o, 's, 'a) prog" where
  "ret x = (\<lambda>w. (Inr x, w))"

definition bnd :: "('o, 's, 'a) prog \<Rightarrow> ('a \<Rightarrow> ('o, 's, 'b) prog) \<Rightarrow> ('o, 's, 'b) prog" where
  "bnd m f = (\<lambda>w. case m w of (Inl e, w') \<Rightarrow> (Inl e, w') | (Inr x, w') \<Rightarrow> f x w')"

text \<open>A call that returns \<open>x\<close> unless the environment makes it raise.\<close>

definition ext :: "env \<Rightarrow> ('o, 's) call \<Rightarrow> 'a \<Rightarrow> ('o, 's, 'a) prog" where
  "ext e c x = (\<lambda>w.
     if raises e (length (trace w))
     then (Inl (Raised c), w\<lparr>trace := trace w @ [c]\<rparr>)
     else (Inr x, w\<lparr>trace := trace w @ [c]\<rparr>))"

subsection \<open>The file system and \<open>Path.mkdir(exist_ok=True, parents=True)\<close>\<close>

text \<open>
  The file system holds directories and regular files under the names that lead to them
  from the root; it has no links. \<open>absolute c p\<close> is the path \<open>p\<close> as the operating
  system reads it in working directory \<open>c\<close>: the components to walk from the root, with
  every \<open>..\<close> still in place.
\<close>

fun absolute :: "string list \<Rightarrow> path \<Rightarrow> string list" where
  "absolute c (Abs ds) = ds"
| "absolute c (Rel ds) = c @ ds"

fun is_rel :: "path \<Rightarrow> bool" where
  "is_rel (Rel ds) = True"
| "is_rel (Abs ds) = False"

text \<open>
  A path names a directory when the walk along it only meets directories. The walk
  is the operating system's: \<open>..\<close> leads to the parent of the directory reached so far
  (the root is its own parent) and \<open>.\<close> stays.
\<close>

fun is_dir_from :: "fsys \<Rightarrow> string list \<Rightarrow> string list \<Rightarrow> bool" where
  "is_dir_from f base [] = True"
| "is_dir_from f base (d # ds) =
     (if d = ''..'' then is_dir_from f (butlast base) ds
      else if d = ''.'' then is_dir_from f base ds
      else f (base @ [d]) = Some Dir \<and> is_dir_from f (base @ [d]) ds)"

definition is_dir :: "fsys \<Rightarrow> string list \<Rightarrow> bool" where
  "is_dir f p = is_dir_from f [] p"

text \<open>One component further on, the fault is one component nearer.\<close>

fun lower :: "nat option \<Rightarrow> nat option" where
  "lower None = None"
| "lower (Some n) = Some (n - 1)"

text \<open>
  \<open>Path.mkdir(exist_ok=True, parents=True)\<close>, as the walk it amounts to.
  \<open>mkdirs f base ds made k\<close> goes on from the directory \<open>base\<close> along \<open>ds\<close>: a
  directory is entered, a missing component is created and entered, and a regular file
  in the way ends the call. \<open>made\<close> says that a component was missing before: the
  first \<open>os.mkdir\<close> of the whole path has then failed with \<open>ENOENT\<close>, the parents are
  being made one by one, and the file is met by an \<open>os.mkdir\<close> of its own name
  (\<open>EEXIST\<close>, so \<open>FileExistsError\<close>); otherwise the first \<open>os.mkdir\<close> meets the file
  itself, with \<open>ENOTDIR\<close> when it is not the last component and \<open>EEXIST\<close> when it
  is. \<open>k\<close> is the fault, if there is one: the number of components still to get
  through before the call ends with another \<open>OSError\<close> (a fault beyond the last
  component ends the call after it). The result is the error, if any, and the file
  system the call leaves behind, with the directories made before the error.
\<close>

fun mkdirs ::
  "fsys \<Rightarrow> string list \<Rightarrow> string list \<Rightarrow> bool \<Rightarrow> nat option \<Rightarrow> os_error option \<times> fsys" where
  "mkdirs f base [] made k = (if k = None then None else Some OtherOSError, f)"
| "mkdirs f base (d # ds) made k =
     (if k = Some 0 then (Some OtherOSError, f)
      else if d = ''..'' then mkdirs f (butlast base) ds made (lower k)
      else if d = ''.'' then mkdirs f base ds made (lower k)
      else case f (base @ [d]) of
          Some File \<Rightarrow>
            (Some (if made \<or> ds = [] then FileExistsError else NotADirectoryError), f)
        | Some Dir \<Rightarrow> mkdirs f (base @ [d]) ds made (lower k)
        | None \<Rightarrow> mkdirs (f(base @ [d] \<mapsto> Dir)) (base @ [d]) ds True (lower k))"

text \<open>
  What the call made as call number \<open>n\<close> does to file system \<open>f\<close> in working
  directory \<open>c\<close>: the error it ends with, if any, and the file system it leaves. A
  relative path needs the working directory to be there (\<open>FileNotFoundError\<close>
  otherwise).
\<close>

definition mkdir_outcome ::
  "env \<Rightarrow> nat \<Rightarrow> fsys \<Rightarrow> string list \<Rightarrow> path \<Rightarrow> os_error option \<times> fsys" where
  "mkdir_outcome e n f c p =
     (if is_rel p \<and> \<not> is_dir f c then (Some FileNotFoundError, f)
      else mkdirs f [] (absolute c p) False
             (if raises e n then Some (fault_depth e n) else None))"

definition path_mkdir :: "env \<Rightarrow> path \<Rightarrow> ('o, 's, unit) prog" where
  "path_mkdir e p = (\<lambda>w.
     let out = mkdir_outcome e (length (trace w)) (fs w) (cwd w) p;
         w' = w\<lparr>fs := snd out, trace := trace w @ [Path_mkdir p]\<rparr>
     in case fst out of
          Some err \<Rightarrow> (Inl (OSError err), w')
        | None \<Rightarrow> (Inr (), w'))"

definition os_chdir :: "env \<Rightarrow> string list \<Rightarrow> ('o, 's, unit) prog" where
  "os_chdir e d = (\<lambda>w.
     if raises e (length (trace w))
     then (Inl (Raised (Os_chdir d)), w\<lparr>trace := trace w @ [Os_chdir d]\<rparr>)
     else (Inr (), w\<lparr>cwd := d, trace := trace w @ [Os_chdir d]\<rparr>))"

subsection \<open>The functions of the script\<close>

definition get_train_transform :: "env \<Rightarrow> ('o, 's, aug_transform) prog" where
  "get_train_transform e =
     bnd (ext e Get_ocr_valid_transform_list (ocr_valid_transform_list e)) (\<lambda>vs.
     ext e (New_AugTransform (Compose (aug_transforms @ vs)))
           (AugTransform (Compose (aug_transforms @ vs))))"

definition get_valid_transform :: "env \<Rightarrow> ('o, 's, aug_transform) prog" where
  "get_valid_transform e =
     bnd (ext e Get_ocr_valid_transform_list (ocr_valid_transform_list e)) (\<lambda>vs.
     ext e (New_AugTransform (Compose vs)) (AugTransform (Compose vs)))"

definition get_model :: "env \<Rightarrow> ('o, 's, crnn) prog" where
  "get_model e = ext e (New_CRNN (PLATE_ALPHABET e)) (CRNN (PLATE_ALPHABET e))"

definition target_metric_name :: string where
  "target_metric_name = ''12''"

text \<open>
  The f-string \<open>f"{{step}}-{{{target_metric_name}:.4f}}"\<close>: doubled braces are
  literal braces, the single pair interpolates the name.
\<close>

definition filename_template :: "string \<Rightarrow> string" where
  "filename_template name = ''{step}-{'' @ name @ '':.4f}''"

definition main :: "('o, 's) train_config \<Rightarrow> env \<Rightarrow> ('o, 's, unit) prog" where
  "main train_config e =
     bnd (os_chdir e (original_cwd e)) (\<lambda>_.
     bnd (ext e (Seed_everything (seed train_config)) ()) (\<lambda>_.
     bnd (get_model e) (\<lambda>model.
     bnd (get_train_transform e) (\<lambda>train_tranaforms.
     bnd (get_valid_transform e) (\<lambda>valid_trasnforms.
     let data_args = \<lparr>
           dm_image_dir = image_dir (ocr train_config),
           dm_train_batch_size = train_batch_size (ocr train_config),
           dm_valid_batch_size = valid_batch_size (ocr train_config),
           dm_seed = seed train_config,
           dm_train_size = train_size train_config,
           dm_num_workers = num_workers train_config,
           dm_train_transforms = train_tranaforms,
           dm_val_transforms = valid_trasnforms \<rparr> in
     bnd (ext e (New_OCRDetectionDataModule data_args) data_args) (\<lambda>data.
     let exp = exp_dir train_config;
         checkpoint_dir = joinpath exp ''checkpoint'' in
     bnd (path_mkdir e checkpoint_dir) (\<lambda>_.
     let wrapper_args = \<lparr>
           dt_model = model,
           dt_optimizer_config = optimizer train_config,
           dt_scheduler_config = scheduler train_config,
           dt_target_metric = target_metric_name \<rparr> in
     bnd (ext e (New_OCRDetectorTrainer wrapper_args) wrapper_args) (\<lambda>train_module.
     let checkpoint_args = \<lparr>
           mc_monitor = target_metric_name,
           mc_dirpath = checkpoint_dir,
           mc_filename = filename_template target_metric_name,
           mc_verbose = True,
           mc_save_last = True,
           mc_every_n_train_steps = val_check_interval train_config + 1,
           mc_save_top_k = 2,
           mc_mode = ''max'',
           mc_save_weights_only = False \<rparr> in
     bnd (ext e (New_ModelCheckpoint checkpoint_args) checkpoint_args) (\<lambda>checkpoint_callback.
     bnd (ext e (New_LearningRateMonitor ''step'') (LearningRateMonitor ''step'')) (\<lambda>lr_mon.
     let log_dir = joinpath exp ''logs'' in
     bnd (path_mkdir e log_dir) (\<lambda>_.
     bnd (ext e (New_TensorBoardLogger (path_str log_dir))
                (TensorBoardLogger (path_str log_dir))) (\<lambda>logger.
     bnd (ext e Cuda_is_available (cuda_is_available e)) (\<lambda>avail.
     let gpus = (if avail then Some (- 1) else None) in
     bnd (if gpus = None
          then ext e (Warnings_warn
                 ''GPU is not available. Try train on CPU. It may will bew very slow'') ()
          else ret ()) (\<lambda>_.
     let trainer_args = \<lparr>
           tr_amp_backend = ''native'',
           tr_gpus = gpus,
           tr_logger = logger,
           tr_auto_select_gpus = True,
           tr_benchmark = True,
           tr_check_val_every_n_epoch = check_val_every_n_epoch train_config,
           tr_flush_logs_every_n_steps = flush_logs_every_n_steps train_config,
           tr_default_root_dir = path_str exp,
           tr_deterministic = False,
           tr_fast_dev_run = fast_dev_run train_config,
           tr_progress_bar_refresh_rate = 5,
           tr_precision = precision train_config,
           tr_max_epochs = max_epochs train_config,
           tr_val_check_interval = val_check_interval train_config,
           tr_callbacks = [CheckpointCallback checkpoint_callback, LrCallback lr_mon] \<rparr> in
     bnd (ext e (New_Trainer trainer_args) trainer_args) (\<lambda>trainer.
     ext e (Trainer_fit trainer train_module data) ())))))))))))))))"

text \<open>The exit status of the process: 0 when \<open>main\<close> returns, 1 when an exception leaves it.\<close>

definition exit_status :: "(('o, 's) error + unit) \<times> ('o, 's) world \<Rightarrow> int" where
  "exit_status r = (case fst r of Inr _ \<Rightarrow> 0 | Inl _ \<Rightarrow> 1)"

subsection \<open>Runs and what is read off their traces\<close>

text \<open>The world at process start: nothing called yet.\<close>

definition process_start :: "string list \<Rightarrow> fsys \<Rightarrow> ('o, 's) world" where
  "process_start c f = \<lparr>cwd = c, fs = f, trace = []\<rparr>"

text \<open>A run of the script, and the calls it made.\<close>

abbreviation run ::
  "('o, 's) train_config \<Rightarrow> env \<Rightarrow> string list \<Rightarrow> fsys \<Rightarrow> (('o, 's) error + unit) \<times> ('o, 's) world" where
  "run cfg e c f \<equiv> main cfg e (process_start c f)"

abbreviation run_trace ::
  "('o, 's) train_config \<Rightarrow> env \<Rightarrow> string list \<Rightarrow> fsys \<Rightarrow> ('o, 's) call list" where
  "run_trace cfg e c f \<equiv> trace (snd (main cfg e (process_start c f)))"

text \<open>The seeds passed to \<open>seed_everything\<close>, in call order.\<close>

definition seeds :: "('o, 's) call list \<Rightarrow> int list" where
  "seeds tr = List.map_filter (\<lambda>c. case c of Seed_everything s \<Rightarrow> Some s | _ \<Rightarrow> None) tr"

text \<open>The messages passed to \<open>warnings.warn\<close>, in call order.\<close>

definition warnings :: "('o, 's) call list \<Rightarrow> string list" where
  "warnings tr = List.map_filter (\<lambda>c. case c of Warnings_warn m \<Rightarrow> Some m | _ \<Rightarrow> None) tr"

text \<open>
  The constructions that draw on the random sources: the model, the transform
  pipelines (with the list they are built from) and the data module.
\<close>

definition is_consumer :: "('o, 's) call \<Rightarrow> bool" where
  "is_consumer c = (case c of
       New_CRNN _ \<Rightarrow> True
     | Get_ocr_valid_transform_list \<Rightarrow> True
     | New_AugTransform _ \<Rightarrow> True
     | New_OCRDetectionDataModule _ \<Rightarrow> True
     | _ \<Rightarrow> False)"

definition is_fit :: "('o, 's) call \<Rightarrow> bool" where
  "is_fit c = (case c of Trainer_fit _ _ _ \<Rightarrow> True | _ \<Rightarrow> False)"

definition fit_invoked :: "('o, 's) call list \<Rightarrow> bool" where
  "fit_invoked tr = list_ex is_fit tr"

text \<open>
  A path can be created when the walk along it meets no regular file, and, for a
  relative path, the working directory is there.
\<close>

fun creatable_from :: "fsys \<Rightarrow> string list \<Rightarrow> string list \<Rightarrow> bool" where
  "creatable_from f base [] = True"
| "creatable_from f base (d # ds) =
     (if d = ''..'' then creatable_from f (butlast base) ds
      else if d = ''.'' then creatable_from f base ds
      else f (base @ [d]) \<noteq> Some File \<and> creatable_from f (base @ [d]) ds)"

definition creatable :: "fsys \<Rightarrow> string list \<Rightarrow> path \<Rightarrow> bool" where
  "creatable f c p = ((if is_rel p then is_dir f c else True) \<and> creatable_from f [] (absolute c p))"

text \<open>The two directories of a run: as the script names them, and as the operating
  system reads those names after \<open>chdir\<close>.\<close>

definition checkpoint_dir :: "('o, 's) train_config \<Rightarrow> path" where
  "checkpoint_dir cfg = joinpath (exp_dir cfg) ''checkpoint''"

definition log_dir :: "('o, 's) train_config \<Rightarrow> path" where
  "log_dir cfg = joinpath (exp_dir cfg) ''logs''"

definition checkpoint_path :: "('o, 's) train_config \<Rightarrow> env \<Rightarrow> string list" where
  "checkpoint_path cfg e = absolute (original_cwd e) (checkpoint_dir cfg)"

definition logs_path :: "('o, 's) train_config \<Rightarrow> env \<Rightarrow> string list" where
  "logs_path cfg e = absolute (original_cwd e) (log_dir cfg)"

text \<open>
  The calls of a run that nothing stops, by the number of calls made before each:
  0 \<open>os.chdir\<close>, 1 \<open>seed_everything\<close>, 2 \<open>CRNN\<close>,
  3 and 4 the transform list and \<open>AugTransform\<close> of the training pipeline,
  5 and 6 the same for the validation pipeline, 7 \<open>OCRDetectionDataModule\<close>,
  8 \<open>mkdir\<close> of the checkpoint directory, 9 \<open>OCRDetectorTrainer\<close>,
  10 \<open>ModelCheckpoint\<close>, 11 \<open>LearningRateMonitor\<close>, 12 \<open>mkdir\<close> of the log
  directory, 13 \<open>TensorBoardLogger\<close>, 14 the CUDA query; then, without CUDA,
  15 \<open>warnings.warn\<close>, 16 \<open>Trainer\<close>, 17 \<open>fit\<close>, and with CUDA
  15 \<open>Trainer\<close>, 16 \<open>fit\<close>. A hypothesis \<open>\<forall>n<k. \<not> raises e n\<close> says that
  the environment makes none of the first \<open>k\<close> calls raise; a \<open>mkdir\<close> among them
  can still end on a file in the way, which the hypotheses on the two directories
  exclude.
\<close>

definition fit_index :: "env \<Rightarrow> nat" where
  "fit_index e = (if cuda_is_available e then 16 else 17)"

subsection \<open>A concrete run\<close>

definition cfg0 :: "(string, string) train_config" where
  "cfg0 = \<lparr> seed = 42,
            ocr = \<lparr> image_dir = ''data/plates'', train_batch_size = 64, valid_batch_size = 128 \<rparr>,
            train_size = 0.8, num_workers = 2, exp_dir = Rel [''exp''],
            optimizer = ''adam'', scheduler = ''cosine'',
            val_check_interval = 100, check_val_every_n_epoch = 1,
            flush_logs_every_n_steps = 10, fast_dev_run = False,
            precision = 16, max_epochs = 3 \<rparr>"

definition env_cpu :: env where
  "env_cpu = \<lparr> original_cwd = [''home'', ''user''], cuda_is_available = False,
               PLATE_ALPHABET = ''0123456789ABCEHKMOPTXY'',
               ocr_valid_transform_list = [OtherTransform ''Resize'', OtherTransform ''Normalize''],
               raises = (\<lambda>n. False), fault_depth = (\<lambda>n. 0) \<rparr>"

definition env_gpu :: env where
  "env_gpu = env_cpu \<lparr> cuda_is_available := True \<rparr>"

text \<open>The same machine, with the \<open>fit\<close> call (the eighteenth call of a CPU run) raising.\<close>

definition env_fit_fails :: env where
  "env_fit_fails = env_cpu \<lparr> raises := (\<lambda>n. n = 17) \<rparr>"

definition fs0 :: fsys where
  "fs0 = Map.empty([''home''] \<mapsto> Dir, [''home'', ''user''] \<mapsto> Dir)"

definition cwd0 :: "string list" where
  "cwd0 = [''home'', ''user'', ''outputs'']"

definition w0 :: "(string, string) world" where
  "w0 = process_start cwd0 fs0"

text \<open>The same machine, with \<open>os.chdir\<close> (the first call) raising.\<close>

definition env_chdir_fails :: env where
  "env_chdir_fails = env_cpu \<lparr> raises := (\<lambda>n. n = 0) \<rparr>"

text \<open>The same machine, with warnings turned into errors: the sixteenth call raises.\<close>

definition env_warn_fails :: env where
  "env_warn_fails = env_cpu \<lparr> raises := (\<lambda>n. n = 15) \<rparr>"

text \<open>A configuration whose experiment directory lies beside the working directory.\<close>

definition cfg_up :: "(string, string) train_config" where
  "cfg_up = cfg0 \<lparr> exp_dir := Rel [''..'', ''exp2''] \<rparr>"

text \<open>A file system in which a regular file has that name.\<close>

definition fs_blocked :: fsys where
  "fs_blocked = fs0([''home'', ''exp2''] \<mapsto> File)"

text \<open>A file system in which the experiment tree is already there.\<close>

definition fs_exp :: fsys where
  "fs_exp = fs0([''home'', ''user'', ''exp''] \<mapsto> Dir,
                [''home'', ''user'', ''exp'', ''checkpoint''] \<mapsto> Dir,
                [''home'', ''user'', ''exp'', ''logs''] \<mapsto> Dir)"

text \<open>The objects the concrete run builds.\<close>

definition valid0 :: aug_transform where
  "valid0 = AugTransform (Compose [OtherTransform ''Resize'', OtherTransform ''Normalize''])"

definition train0 :: aug_transform where
  "train0 = AugTransform (Compose
     (aug_transforms @ [OtherTransform ''Resize'', OtherTransform ''Normalize'']))"

definition data0 :: data_module where
  "data0 = \<lparr> dm_image_dir = ''data/plates'', dm_train_batch_size = 64,
             dm_valid_batch_size = 128, dm_seed = 42, dm_train_size = 0.8,
             dm_num_workers = 2, dm_train_transforms = train0, dm_val_transforms = valid0 \<rparr>"

definition wrapper0 :: "(string, string) detector_trainer" where
  "wrapper0 = \<lparr> dt_model = CRNN ''0123456789ABCEHKMOPTXY'', dt_optimizer_config = ''adam'',
                dt_scheduler_config = ''cosine'', dt_target_metric = ''12'' \<rparr>"

definition checkpoint0 :: model_checkpoint where
  "checkpoint0 = \<lparr> mc_monitor = ''12'', mc_dirpath = Rel [''exp'', ''checkpoint''],
                   mc_filename = ''{step}-{12:.4f}'', mc_verbose = True, mc_save_last = True,
                   mc_every_n_train_steps = 101, mc_save_top_k = 2, mc_mode = ''max'',
                   mc_save_weights_only = False \<rparr>"

definition trainer0 :: "int option \<Rightarrow> trainer" where
  "trainer0 g = \<lparr> tr_amp_backend = ''native'', tr_gpus = g,
                  tr_logger = TensorBoardLogger ''exp/logs'', tr_auto_select_gpus = True,
                  tr_benchmark = True, tr_check_val_every_n_epoch = 1,
                  tr_flush_logs_every_n_steps = 10, tr_default_root_dir = ''exp'',
                  tr_deterministic = False, tr_fast_dev_run = False,
                  tr_progress_bar_refresh_rate = 5, tr_precision = 16, tr_max_epochs = 3,
                  tr_val_check_interval = 100,
                  tr_callbacks = [CheckpointCallback checkpoint0,
                                  LrCallback (LearningRateMonitor ''step'')] \<rparr>"

section \<open>Properties\<close>

lemmas run_defs = main_def bnd_def ext_def ret_def os_chdir_def path_mkdir_def
  get_model_def get_train_transform_def get_valid_transform_def process_start_def Let_def

lemmas dir_defs = checkpoint_dir_def log_dir_def checkpoint_path_def logs_path_def

lemmas run_splits = if_splits option.splits

lemmas input_defs = cfg0_def cfg_up_def env_cpu_def env_gpu_def env_fit_fails_def
  env_chdir_fails_def env_warn_fails_def fs0_def fs_exp_def fs_blocked_def cwd0_def w0_def
  valid0_def train0_def data0_def wrapper0_def checkpoint0_def trainer0_def

lemmas eval_defs = run_defs mkdir_outcome_def is_dir_def creatable_def dir_defs input_defs
  target_metric_name_def filename_template_def fit_index_def

subsection \<open>Creating directories\<close>

lemma mkdirs_adds_dirs:
  "snd (mkdirs f base ds made k) q = f q \<or> (f q = None \<and> snd (mkdirs f base ds made k) q = Some Dir)"
proof (induction ds arbitrary: f base made k)
  case Nil
  show ?case by simp
next
  case (Cons d ds)
  consider (fault) "k = Some 0"
    | (up) "k \<noteq> Some 0" "d = ''..''"
    | (stay) "k \<noteq> Some 0" "d \<noteq> ''..''" "d = ''.''"
    | (name) "k \<noteq> Some 0" "d \<noteq> ''..''" "d \<noteq> ''.''"
    by blast
  then show ?case
  proof cases
    case fault
    then show ?thesis by simp
  next
    case up
    then have "mkdirs f base (d # ds) made k = mkdirs f (butlast base) ds made (lower k)" by simp
    with Cons.IH [of f "butlast base" made "lower k"] show ?thesis by simp
  next
    case stay
    then have "mkdirs f base (d # ds) made k = mkdirs f base ds made (lower k)" by simp
    with Cons.IH [of f base made "lower k"] show ?thesis by simp
  next
    case name
    show ?thesis
    proof (cases "f (base @ [d])")
      case None
      define g where "g = f(base @ [d] \<mapsto> Dir)"
      from name None have eq: "mkdirs f base (d # ds) made k = mkdirs g (base @ [d]) ds True (lower k)"
        by (simp add: g_def)
      have g: "g q = (if q = base @ [d] then Some Dir else f q)"
        by (simp add: g_def)
      from Cons.IH [of g "base @ [d]" True "lower k"] g None show ?thesis
        unfolding eq by (cases "q = base @ [d]") auto
    next
      case (Some n)
      show ?thesis
      proof (cases n)
        case Dir
        with name Some have "mkdirs f base (d # ds) made k = mkdirs f (base @ [d]) ds made (lower k)"
          by simp
        with Cons.IH [of f "base @ [d]" made "lower k"] show ?thesis by simp
      next
        case File
        with name Some show ?thesis by simp
      qed
    qed
  qed
qed

lemma mkdirs_keeps: "f q = Some n \<Longrightarrow> snd (mkdirs f base ds made k) q = Some n"
  using mkdirs_adds_dirs [of f base ds made k q] by auto

lemma is_dir_from_mono:
  "is_dir_from f base ds \<Longrightarrow> (\<And>q. f q = Some Dir \<Longrightarrow> f' q = Some Dir) \<Longrightarrow> is_dir_from f' base ds"
  by (induction ds arbitrary: base) (auto split: if_splits)

lemma creatable_from_mono:
  "creatable_from f base ds \<Longrightarrow> (\<And>q. f' q = Some File \<Longrightarrow> f q = Some File) \<Longrightarrow> creatable_from f' base ds"
  by (induction ds arbitrary: base) (auto split: if_splits)

lemma mkdirs_is_dir: "mkdirs f base ds made k = (None, f') \<Longrightarrow> is_dir_from f' base ds"
proof (induction ds arbitrary: f base made k)
  case Nil
  show ?case by simp
next
  case (Cons d ds)
  show ?case
  proof (cases "d = ''..'' \<or> d = ''.''")
    case True
    with Cons.prems Cons.IH show ?thesis by (auto split: if_splits)
  next
    case False
    show ?thesis
    proof (cases "f (base @ [d])")
      case None
      with Cons.prems False
      have m: "mkdirs (f(base @ [d] \<mapsto> Dir)) (base @ [d]) ds True (lower k) = (None, f')"
        by (simp split: if_splits)
      have "snd (mkdirs (f(base @ [d] \<mapsto> Dir)) (base @ [d]) ds True (lower k)) (base @ [d]) = Some Dir"
        by (rule mkdirs_keeps) simp
      with m have "f' (base @ [d]) = Some Dir" by simp
      with Cons.IH [OF m] False show ?thesis by simp
    next
      case (Some n)
      with Cons.prems False have n: "n = Dir"
        and m: "mkdirs f (base @ [d]) ds made (lower k) = (None, f')"
        by (cases n; simp split: if_splits)+
      have "snd (mkdirs f (base @ [d]) ds made (lower k)) (base @ [d]) = Some Dir"
        using Some n by (intro mkdirs_keeps) simp
      with m have "f' (base @ [d]) = Some Dir" by simp
      with Cons.IH [OF m] False show ?thesis by simp
    qed
  qed
qed

lemma mkdirs_existing: "is_dir_from f base ds \<Longrightarrow> snd (mkdirs f base ds made k) = f"
  by (induction ds arbitrary: base k) (auto split: if_splits)

lemma mkdirs_existing_error:
  "is_dir_from f base ds \<Longrightarrow>
     fst (mkdirs f base ds made k) = None \<or> fst (mkdirs f base ds made k) = Some OtherOSError"
  by (induction ds arbitrary: base k) (auto split: if_splits)

lemma mkdirs_idem: "is_dir_from f base ds \<Longrightarrow> mkdirs f base ds made None = (None, f)"
  by (induction ds arbitrary: base) (auto split: if_splits)

lemma mkdirs_creatable:
  "creatable_from f base ds \<Longrightarrow> \<exists>f'. mkdirs f base ds made None = (None, f')"
proof (induction ds arbitrary: f base made)
  case Nil
  show ?case by simp
next
  case (Cons d ds)
  show ?case
  proof (cases "d = ''..'' \<or> d = ''.''")
    case True
    with Cons.prems Cons.IH show ?thesis by (auto split: if_splits)
  next
    case False
    with Cons.prems have nf: "f (base @ [d]) \<noteq> Some File"
      and c: "creatable_from f (base @ [d]) ds"
      by simp_all
    show ?thesis
    proof (cases "f (base @ [d])")
      case None
      have "creatable_from (f(base @ [d] \<mapsto> Dir)) (base @ [d]) ds"
        by (rule creatable_from_mono [OF c]) (auto split: if_splits)
      from Cons.IH [OF this] obtain f' where
        "mkdirs (f(base @ [d] \<mapsto> Dir)) (base @ [d]) ds True None = (None, f')" by blast
      with None False have "mkdirs f base (d # ds) made None = (None, f')" by simp
      then show ?thesis by blast
    next
      case (Some n)
      with nf have "n = Dir" by (cases n) auto
      from Cons.IH [OF c] obtain f' where "mkdirs f (base @ [d]) ds made None = (None, f')" by blast
      with Some \<open>n = Dir\<close> False have "mkdirs f base (d # ds) made None = (None, f')" by simp
      then show ?thesis by blast
    qed
  qed
qed

lemma mkdirs_keeps_creatable:
  assumes "creatable_from f b2 ds2"
  shows "creatable_from (snd (mkdirs f base ds made k)) b2 ds2"
proof (rule creatable_from_mono [OF assms])
  fix q assume "snd (mkdirs f base ds made k) q = Some File"
  with mkdirs_adds_dirs [of f base ds made k q] show "f q = Some File" by auto
qed

lemma mkdirs_keeps_is_dir:
  "is_dir_from f b2 ds2 \<Longrightarrow> is_dir_from (snd (mkdirs f base ds made k)) b2 ds2"
  by (erule is_dir_from_mono) (rule mkdirs_keeps)

lemma is_dir_from_prefix: "is_dir_from f base (xs @ ys) \<Longrightarrow> is_dir_from f base xs"
  by (induction xs arbitrary: base) (auto split: if_splits)

lemma is_dir_creatable_from: "is_dir_from f base ds \<Longrightarrow> creatable_from f base ds"
  by (induction ds arbitrary: base) (auto split: if_splits)

lemma is_rel_joinpath [simp]: "is_rel (joinpath p d) = is_rel p"
  by (cases p) simp_all

lemma absolute_joinpath: "absolute c (joinpath p d) = absolute c p @ [d]"
  by (cases p) simp_all

lemma is_dir_creatable:
  "is_dir f (absolute c p) \<Longrightarrow> creatable f c p"
  by (cases p) (auto simp: creatable_def is_dir_def dest: is_dir_from_prefix is_dir_creatable_from)


lemma mkdir_outcome_ok:
  "creatable f c p \<Longrightarrow> \<not> raises e n \<Longrightarrow> fst (mkdir_outcome e n f c p) = None"
  using mkdirs_creatable [of f "[]" "absolute c p" False]
  by (auto simp: mkdir_outcome_def creatable_def split: if_splits)

lemma mkdir_outcome_is_dir:
  "fst (mkdir_outcome e n f c p) = None \<Longrightarrow> is_dir (snd (mkdir_outcome e n f c p)) (absolute c p)"
proof -
  assume a: "fst (mkdir_outcome e n f c p) = None"
  define k where "k = (if raises e n then Some (fault_depth e n) else None)"
  from a have eq: "mkdir_outcome e n f c p = mkdirs f [] (absolute c p) False k"
    by (auto simp: mkdir_outcome_def k_def split: if_splits)
  with a have "mkdirs f [] (absolute c p) False k
                 = (None, snd (mkdirs f [] (absolute c p) False k))"
    by (metis prod.collapse)
  from mkdirs_is_dir [OF this] show ?thesis
    unfolding eq is_dir_def .
qed

lemma mkdir_outcome_keeps_is_dir:
  "is_dir f q \<Longrightarrow> is_dir (snd (mkdir_outcome e n f c p)) q"
  by (simp add: mkdir_outcome_def is_dir_def mkdirs_keeps_is_dir)

lemma mkdir_outcome_keeps_creatable:
  "creatable f c' p' \<Longrightarrow> creatable (snd (mkdir_outcome e n f c p)) c' p'"
  by (auto simp: mkdir_outcome_def creatable_def is_dir_def mkdirs_keeps_is_dir mkdirs_keeps_creatable
      split: if_splits)

lemma mkdir_outcome_existing:
  assumes "is_dir f (absolute c p)"
  shows "snd (mkdir_outcome e n f c p) = f"
    and "fst (mkdir_outcome e n f c p) = None \<or> fst (mkdir_outcome e n f c p) = Some OtherOSError"
proof -
  from assms have d: "is_dir_from f [] (absolute c p)" by (simp add: is_dir_def)
  from is_dir_creatable [OF assms] have "\<not> (is_rel p \<and> \<not> is_dir f c)"
    by (auto simp: creatable_def split: if_splits)
  then have eq: "mkdir_outcome e n f c p = mkdirs f [] (absolute c p) False
             (if raises e n then Some (fault_depth e n) else None)"
    unfolding mkdir_outcome_def by (simp only: if_False)
  show "snd (mkdir_outcome e n f c p) = f"
    unfolding eq by (rule mkdirs_existing [OF d])
  show "fst (mkdir_outcome e n f c p) = None \<or> fst (mkdir_outcome e n f c p) = Some OtherOSError"
    unfolding eq by (rule mkdirs_existing_error [OF d])
qed

subsection \<open>Runs\<close>

lemma before_first:
  assumes "list_all (\<lambda>x. \<not> p x) (takeWhile (\<lambda>x. x \<noteq> a) tr)"
    and "tr = pre @ x # post" and "p x" and "\<not> p a"
  shows "a \<in> set pre"
proof (rule ccontr)
  assume n: "a \<notin> set pre"
  from assms(3,4) have "x \<noteq> a" by auto
  from n have "takeWhile (\<lambda>x. x \<noteq> a) (pre @ x # post) = pre @ takeWhile (\<lambda>x. x \<noteq> a) (x # post)"
    by (intro takeWhile_append2) auto
  with \<open>x \<noteq> a\<close> assms(1,2) have "\<not> p x" by simp
  with assms(3) show False by simp
qed
lemma reach_checkpoint_mkdir:
  fixes e :: env
  assumes "creatable f (original_cwd e) (checkpoint_dir cfg)" and "\<not> raises e n"
  shows "fst (mkdir_outcome e n f (original_cwd e) (joinpath (exp_dir cfg) ''checkpoint'')) = None"
  using assms by (simp add: mkdir_outcome_ok checkpoint_dir_def)

lemma reach_logs_mkdir:
  fixes e :: env
  assumes "creatable f (original_cwd e) (log_dir cfg)" and "\<not> raises e n"
  shows "fst (mkdir_outcome e n (snd (mkdir_outcome e m f c' p'))
            (original_cwd e) (joinpath (exp_dir cfg) ''logs'')) = None"
  using assms by (simp add: mkdir_outcome_ok mkdir_outcome_keeps_creatable log_dir_def)

lemma run_completes:
  fixes e :: env
  assumes nr: "\<And>n. n < fit_index e \<Longrightarrow> \<not> raises e n"
    and c1: "creatable f (original_cwd e) (checkpoint_dir cfg)"
    and c2: "creatable f (original_cwd e) (log_dir cfg)"
  shows "fit_invoked (run_trace cfg e c f)"
    and "\<not> raises e (fit_index e) \<Longrightarrow> fst (run cfg e c f) = Inr ()"
proof -
  from nr have r: "\<And>n. n < fit_index e \<Longrightarrow> raises e n = False" by simp
  note m1 = reach_checkpoint_mkdir [OF c1] and m2 = reach_logs_mkdir [OF c2]
  show "fit_invoked (run_trace cfg e c f)"
    by (cases "cuda_is_available e")
      (simp_all add: run_defs r m1 [OF nr] m2 [OF nr] fit_index_def fit_invoked_def is_fit_def)
  show "fst (run cfg e c f) = Inr ()" if "\<not> raises e (fit_index e)"
  proof -
    from r that have r2: "\<And>n. n < Suc (fit_index e) \<Longrightarrow> raises e n = False"
      by (auto simp: less_Suc_eq)
    from nr that have n2: "\<And>n. n < Suc (fit_index e) \<Longrightarrow> \<not> raises e n"
      by (auto simp: less_Suc_eq)
    show ?thesis
      by (cases "cuda_is_available e")
        (simp_all add: run_defs r2 m1 [OF n2] m2 [OF n2] fit_index_def)
  qed
qed


text \<open>
  Two runs on paths that lead up and out of the working directory: with nothing in
  the way the directories are made beside it, and a regular file of that name ends
  the run at the first \<open>mkdir\<close>.
\<close>

lemma mkdir_beside_cwd:
  "fst (run cfg_up env_cpu cwd0 fs0) = Inr ()
 \<and> fs (snd (run cfg_up env_cpu cwd0 fs0)) [''home'', ''exp2'', ''checkpoint''] = Some Dir
 \<and> fs (snd (run cfg_up env_cpu cwd0 fs0)) [''home'', ''exp2'', ''logs''] = Some Dir"
  by (simp add: eval_defs)

lemma mkdir_file_in_the_way:
  "fst (run cfg_up env_cpu cwd0 fs_blocked) = Inl (OSError NotADirectoryError)
 \<and> \<not> fit_invoked (run_trace cfg_up env_cpu cwd0 fs_blocked)"
  by (simp add: eval_defs fit_invoked_def is_fit_def)

subsection \<open>The transform pipelines\<close>

text \<open>
  C1. Whenever both builders return, the steps of the training pipeline are the
  augmentation steps followed by exactly the steps of the validation pipeline, which
  are the canonical list and nothing else: a strict suffix, holding no step that is
  only an augmentation. The same holds of the two pipelines every run hands to the
  data module.
\<close>

theorem validation_suffix_of_training: 
  "(\<forall>t v. fst (get_train_transform e w) = Inr t \<and> fst (get_valid_transform e w') = Inr v \<longrightarrow>
       steps t = aug_transforms @ steps v \<and> steps v = ocr_valid_transform_list e \<and> strict_suffix (steps v) (steps t)
       \<and> (\<forall>s \<in> set aug_transforms. s \<notin> set (ocr_valid_transform_list e) \<longrightarrow> s \<notin> set (steps v)))
   \<and> (\<forall>d. New_OCRDetectionDataModule d \<in> set (trace (snd (main cfg e (process_start c f)))) \<longrightarrow>
         steps (dm_train_transforms d) = aug_transforms @ steps (dm_val_transforms d)
       \<and> steps (dm_val_transforms d) = ocr_valid_transform_list e
       \<and> strict_suffix (steps (dm_val_transforms d)) (steps (dm_train_transforms d)))"
proof -
  have ne: "aug_transforms \<noteq> []" by (simp add: aug_transforms_def)
  have ss: "\<And>vs. strict_suffix vs (aug_transforms @ vs)"
    using ne by (simp add: strict_suffix_def suffix_def)
  have a: "\<And>t v. fst (get_train_transform e w) = Inr t \<Longrightarrow> fst (get_valid_transform e w') = Inr v \<Longrightarrow>
     steps t = aug_transforms @ steps v \<and> steps v = ocr_valid_transform_list e \<and> strict_suffix (steps v) (steps t)
       \<and> (\<forall>s \<in> set aug_transforms. s \<notin> set (ocr_valid_transform_list e) \<longrightarrow> s \<notin> set (steps v))"
    by (auto simp: get_train_transform_def get_valid_transform_def bnd_def ext_def ss split: if_splits)
  have b: "\<And>d. New_OCRDetectionDataModule d \<in> set (trace (snd (main cfg e (process_start c f)))) \<Longrightarrow>
         steps (dm_train_transforms d) = aug_transforms @ steps (dm_val_transforms d)
       \<and> steps (dm_val_transforms d) = ocr_valid_transform_list e
       \<and> strict_suffix (steps (dm_val_transforms d)) (steps (dm_train_transforms d))"
    by (auto simp: run_defs ss split: run_splits)
  from a b show ?thesis by blast
qed

theorem validation_suffix_of_training_witness:
  "fst (get_train_transform env_cpu w0) = Inr train0
 \<and> fst (get_valid_transform env_cpu w0) = Inr valid0
 \<and> steps train0 = aug_transforms @ steps valid0
 \<and> strict_suffix (steps valid0) (steps train0)
 \<and> MotionBlur 10 \<in> set aug_transforms
 \<and> MotionBlur 10 \<notin> set (ocr_valid_transform_list env_cpu)
 \<and> MotionBlur 10 \<notin> set (steps valid0)
 \<and> New_OCRDetectionDataModule data0 \<in> set (run_trace cfg0 env_cpu cwd0 fs0)
 \<and> steps (dm_train_transforms data0) = aug_transforms @ steps (dm_val_transforms data0)"
proof -
  have t: "fst (get_train_transform env_cpu w0) = Inr train0"
    and v: "fst (get_valid_transform env_cpu w0) = Inr valid0"
    by (simp_all add: run_defs input_defs)
  have m: "MotionBlur 10 \<in> set aug_transforms"
    and n: "MotionBlur 10 \<notin> set (ocr_valid_transform_list env_cpu)"
    by (simp_all add: aug_transforms_def env_cpu_def)
  have d: "New_OCRDetectionDataModule data0 \<in> set (run_trace cfg0 env_cpu cwd0 fs0)"
    by (simp add: eval_defs)
  from validation_suffix_of_training [of env_cpu w0 w0 cfg0 cwd0 fs0] t v m n d
  show ?thesis by blast
qed

subsection \<open>The checkpoint callback\<close>

text \<open>
  C2. The checkpoint callback of a run monitors the fixed metric name, saves every
  (validation-check interval + 1) training steps, keeps the top 2 under mode max, keeps
  the last checkpoint as well, and does not restrict itself to the weights. The
  callback is built, with exactly these arguments, in every run whose first ten calls
  return and whose checkpoint directory can be created, and it is the first of the two
  callbacks of the trainer, which is built in every run whose first sixteen calls
  return and whose two directories can be created.
\<close>

theorem checkpoint_callback_policy:
  "(\<forall>k. New_ModelCheckpoint k \<in> set (run_trace cfg e c f) \<longrightarrow>
        mc_monitor k = target_metric_name
      \<and> mc_monitor k = ''12''
      \<and> mc_every_n_train_steps k = val_check_interval cfg + 1
      \<and> mc_save_top_k k = 2
      \<and> mc_mode k = ''max''
      \<and> mc_save_last k
      \<and> \<not> mc_save_weights_only k)
 \<and> (\<forall>t. New_Trainer t \<in> set (run_trace cfg e c f) \<longrightarrow>
        (\<exists>k. New_ModelCheckpoint k \<in> set (run_trace cfg e c f)
           \<and> tr_callbacks t = [CheckpointCallback k, LrCallback (LearningRateMonitor ''step'')]))
 \<and> ((\<forall>n<10. \<not> raises e n) \<and> creatable f (original_cwd e) (checkpoint_dir cfg) \<longrightarrow>
        New_ModelCheckpoint
          \<lparr> mc_monitor = ''12'', mc_dirpath = checkpoint_dir cfg,
            mc_filename = ''{step}-{12:.4f}'', mc_verbose = True, mc_save_last = True,
            mc_every_n_train_steps = val_check_interval cfg + 1, mc_save_top_k = 2,
            mc_mode = ''max'', mc_save_weights_only = False \<rparr>
          \<in> set (run_trace cfg e c f))
 \<and> ((\<forall>n<16. \<not> raises e n) \<and> creatable f (original_cwd e) (checkpoint_dir cfg)
        \<and> creatable f (original_cwd e) (log_dir cfg) \<longrightarrow>
        (\<exists>t. New_Trainer t \<in> set (run_trace cfg e c f)
           \<and> tr_callbacks t =
               [CheckpointCallback
                  \<lparr> mc_monitor = ''12'', mc_dirpath = checkpoint_dir cfg,
            mc_filename = ''{step}-{12:.4f}'', mc_verbose = True, mc_save_last = True,
            mc_every_n_train_steps = val_check_interval cfg + 1, mc_save_top_k = 2,
            mc_mode = ''max'', mc_save_weights_only = False \<rparr>,
                LrCallback (LearningRateMonitor ''step'')]))"
proof -
  have a: "\<forall>k. New_ModelCheckpoint k \<in> set (run_trace cfg e c f) \<longrightarrow>
        mc_monitor k = target_metric_name
      \<and> mc_monitor k = ''12''
      \<and> mc_every_n_train_steps k = val_check_interval cfg + 1
      \<and> mc_save_top_k k = 2
      \<and> mc_mode k = ''max''
      \<and> mc_save_last k
      \<and> \<not> mc_save_weights_only k"
    by (auto simp: run_defs target_metric_name_def split: run_splits)
  have b: "\<forall>t. New_Trainer t \<in> set (run_trace cfg e c f) \<longrightarrow>
        (\<exists>k. New_ModelCheckpoint k \<in> set (run_trace cfg e c f)
           \<and> tr_callbacks t = [CheckpointCallback k, LrCallback (LearningRateMonitor ''step'')])"
    by (auto simp: run_defs split: run_splits)
  have d: "New_ModelCheckpoint
          \<lparr> mc_monitor = ''12'', mc_dirpath = checkpoint_dir cfg,
            mc_filename = ''{step}-{12:.4f}'', mc_verbose = True, mc_save_last = True,
            mc_every_n_train_steps = val_check_interval cfg + 1, mc_save_top_k = 2,
            mc_mode = ''max'', mc_save_weights_only = False \<rparr>
          \<in> set (run_trace cfg e c f)"
    if r: "\<forall>n<10. \<not> raises e n" and cr: "creatable f (original_cwd e) (checkpoint_dir cfg)"
  proof -
    from r have r': "\<And>n. n < 10 \<Longrightarrow> raises e n = False" by simp
    from r have m1: "\<And>n. n < 10 \<Longrightarrow>
        fst (mkdir_outcome e n f (original_cwd e) (joinpath (exp_dir cfg) ''checkpoint'')) = None"
      by (simp add: reach_checkpoint_mkdir [OF cr])
    show ?thesis
      by (simp add: run_defs r' m1 target_metric_name_def filename_template_def checkpoint_dir_def
          split: run_splits)
  qed
  have g: "\<exists>t. New_Trainer t \<in> set (run_trace cfg e c f)
           \<and> tr_callbacks t =
               [CheckpointCallback
                  \<lparr> mc_monitor = ''12'', mc_dirpath = checkpoint_dir cfg,
            mc_filename = ''{step}-{12:.4f}'', mc_verbose = True, mc_save_last = True,
            mc_every_n_train_steps = val_check_interval cfg + 1, mc_save_top_k = 2,
            mc_mode = ''max'', mc_save_weights_only = False \<rparr>,
                LrCallback (LearningRateMonitor ''step'')]"
    if r: "\<forall>n<16. \<not> raises e n" and cr: "creatable f (original_cwd e) (checkpoint_dir cfg)"
      and cl: "creatable f (original_cwd e) (log_dir cfg)"
  proof -
    from r have r': "\<And>n. n < 16 \<Longrightarrow> raises e n = False" by simp
    from r have m1: "\<And>n. n < 16 \<Longrightarrow>
        fst (mkdir_outcome e n f (original_cwd e) (joinpath (exp_dir cfg) ''checkpoint'')) = None"
      by (simp add: reach_checkpoint_mkdir [OF cr])
    from r have m2: "\<And>n m c' p'. n < 16 \<Longrightarrow>
        fst (mkdir_outcome e n (snd (mkdir_outcome e m f c' p'))
            (original_cwd e) (joinpath (exp_dir cfg) ''logs'')) = None"
      by (simp add: reach_logs_mkdir [OF cl])
    show ?thesis
      by (cases "cuda_is_available e")
        (simp_all add: run_defs r' m1 m2 target_metric_name_def filename_template_def
          checkpoint_dir_def split: run_splits)
  qed
  from a b d g show ?thesis by blast
qed

theorem checkpoint_callback_policy_witness:
  "raises env_cpu = (\<lambda>n. False)
 \<and> creatable fs0 (original_cwd env_cpu) (checkpoint_dir cfg0)
 \<and> creatable fs0 (original_cwd env_cpu) (log_dir cfg0)
 \<and> New_ModelCheckpoint checkpoint0 \<in> set (run_trace cfg0 env_cpu cwd0 fs0)
 \<and> mc_monitor checkpoint0 = ''12''
 \<and> mc_every_n_train_steps checkpoint0 = val_check_interval cfg0 + 1
 \<and> mc_save_top_k checkpoint0 = 2
 \<and> mc_mode checkpoint0 = ''max''
 \<and> mc_save_last checkpoint0
 \<and> \<not> mc_save_weights_only checkpoint0
 \<and> (\<exists>t. New_Trainer t \<in> set (run_trace cfg0 env_cpu cwd0 fs0)
        \<and> tr_callbacks t = [CheckpointCallback checkpoint0,
                              LrCallback (LearningRateMonitor ''step'')])"
proof -
  have r: "raises env_cpu = (\<lambda>n. False)"
    by (simp add: env_cpu_def)
  have cr: "creatable fs0 (original_cwd env_cpu) (checkpoint_dir cfg0)"
    and cl: "creatable fs0 (original_cwd env_cpu) (log_dir cfg0)"
    by (simp_all add: eval_defs)
  have k0: "\<lparr> mc_monitor = ''12'', mc_dirpath = checkpoint_dir cfg0,
            mc_filename = ''{step}-{12:.4f}'', mc_verbose = True, mc_save_last = True,
            mc_every_n_train_steps = val_check_interval cfg0 + 1, mc_save_top_k = 2,
            mc_mode = ''max'', mc_save_weights_only = False \<rparr> = checkpoint0"
    by (simp add: checkpoint0_def checkpoint_dir_def cfg0_def)
  note inst = checkpoint_callback_policy [of cfg0 env_cpu cwd0 fs0, unfolded k0]
  from inst r cr have k: "New_ModelCheckpoint checkpoint0 \<in> set (run_trace cfg0 env_cpu cwd0 fs0)"
    by simp
  from inst r cr cl have t: "\<exists>t. New_Trainer t \<in> set (run_trace cfg0 env_cpu cwd0 fs0)
        \<and> tr_callbacks t = [CheckpointCallback checkpoint0,
                              LrCallback (LearningRateMonitor ''step'')]"
    by simp
  from inst k have "mc_monitor checkpoint0 = ''12''
      \<and> mc_every_n_train_steps checkpoint0 = val_check_interval cfg0 + 1
      \<and> mc_save_top_k checkpoint0 = 2
      \<and> mc_mode checkpoint0 = ''max''
      \<and> mc_save_last checkpoint0
      \<and> \<not> mc_save_weights_only checkpoint0"
    by blast
  with r cr cl k t show ?thesis by blast
qed

subsection \<open>The metric name\<close>

text \<open>The template the callback is given, for the fixed name.\<close>

lemma filename_template_12: "filename_template target_metric_name = ''{step}-{12:.4f}''"
  by (simp add: filename_template_def target_metric_name_def)

text \<open>
  C10. The name given to the training wrapper as its target metric, the name the
  checkpoint callback monitors and the key inside the callback's filename template
  are one string, the fixed name \<open>12\<close>. The wrapper is built with it in every run
  whose first nine calls return and whose checkpoint directory can be created, and
  the callback in every such run whose tenth call returns too.
\<close>

theorem single_metric_name:
  "(\<forall>m. New_OCRDetectorTrainer m \<in> set (run_trace cfg e c f) \<longrightarrow>
        dt_target_metric m = target_metric_name)
 \<and> (\<forall>k. New_ModelCheckpoint k \<in> set (run_trace cfg e c f) \<longrightarrow>
        mc_monitor k = target_metric_name
      \<and> mc_filename k = ''{step}-{'' @ target_metric_name @ '':.4f}'')
 \<and> target_metric_name = ''12''
 \<and> ((\<forall>n<9. \<not> raises e n) \<and> creatable f (original_cwd e) (checkpoint_dir cfg) \<longrightarrow>
        New_OCRDetectorTrainer
          \<lparr> dt_model = CRNN (PLATE_ALPHABET e), dt_optimizer_config = optimizer cfg,
            dt_scheduler_config = scheduler cfg, dt_target_metric = ''12'' \<rparr>
          \<in> set (run_trace cfg e c f))
 \<and> ((\<forall>n<10. \<not> raises e n) \<and> creatable f (original_cwd e) (checkpoint_dir cfg) \<longrightarrow>
        New_ModelCheckpoint
          \<lparr> mc_monitor = ''12'', mc_dirpath = checkpoint_dir cfg,
            mc_filename = ''{step}-{12:.4f}'', mc_verbose = True, mc_save_last = True,
            mc_every_n_train_steps = val_check_interval cfg + 1, mc_save_top_k = 2,
            mc_mode = ''max'', mc_save_weights_only = False \<rparr>
          \<in> set (run_trace cfg e c f))"
proof -
  have a: "\<forall>m. New_OCRDetectorTrainer m \<in> set (run_trace cfg e c f) \<longrightarrow>
        dt_target_metric m = target_metric_name"
    by (auto simp: run_defs split: run_splits)
  have b: "\<forall>k. New_ModelCheckpoint k \<in> set (run_trace cfg e c f) \<longrightarrow>
        mc_monitor k = target_metric_name
      \<and> mc_filename k = ''{step}-{'' @ target_metric_name @ '':.4f}''"
    by (auto simp: run_defs filename_template_def split: run_splits)
  have n: "target_metric_name = ''12''"
    by (simp add: target_metric_name_def)
  have d: "New_OCRDetectorTrainer
          \<lparr> dt_model = CRNN (PLATE_ALPHABET e), dt_optimizer_config = optimizer cfg,
            dt_scheduler_config = scheduler cfg, dt_target_metric = ''12'' \<rparr>
          \<in> set (run_trace cfg e c f)"
    if r: "\<forall>n<9. \<not> raises e n" and cr: "creatable f (original_cwd e) (checkpoint_dir cfg)"
  proof -
    from r have r': "\<And>n. n < 9 \<Longrightarrow> raises e n = False" by simp
    from r have m1: "\<And>n. n < 9 \<Longrightarrow>
        fst (mkdir_outcome e n f (original_cwd e) (joinpath (exp_dir cfg) ''checkpoint'')) = None"
      by (simp add: reach_checkpoint_mkdir [OF cr])
    show ?thesis
      by (simp add: run_defs r' m1 target_metric_name_def split: run_splits)
  qed
  have g: "New_ModelCheckpoint
          \<lparr> mc_monitor = ''12'', mc_dirpath = checkpoint_dir cfg,
            mc_filename = ''{step}-{12:.4f}'', mc_verbose = True, mc_save_last = True,
            mc_every_n_train_steps = val_check_interval cfg + 1, mc_save_top_k = 2,
            mc_mode = ''max'', mc_save_weights_only = False \<rparr>
          \<in> set (run_trace cfg e c f)"
    if r: "\<forall>n<10. \<not> raises e n" and cr: "creatable f (original_cwd e) (checkpoint_dir cfg)"
  proof -
    from r have r': "\<And>n. n < 10 \<Longrightarrow> raises e n = False" by simp
    from r have m1: "\<And>n. n < 10 \<Longrightarrow>
        fst (mkdir_outcome e n f (original_cwd e) (joinpath (exp_dir cfg) ''checkpoint'')) = None"
      by (simp add: reach_checkpoint_mkdir [OF cr])
    show ?thesis
      by (simp add: run_defs r' m1 target_metric_name_def filename_template_def checkpoint_dir_def
          split: run_splits)
  qed
  from a b n d g show ?thesis by blast
qed

theorem single_metric_name_witness:
  "raises env_cpu = (\<lambda>n. False)
 \<and> creatable fs0 (original_cwd env_cpu) (checkpoint_dir cfg0)
 \<and> New_OCRDetectorTrainer wrapper0 \<in> set (run_trace cfg0 env_cpu cwd0 fs0)
 \<and> New_ModelCheckpoint checkpoint0 \<in> set (run_trace cfg0 env_cpu cwd0 fs0)
 \<and> dt_target_metric wrapper0 = mc_monitor checkpoint0
 \<and> mc_filename checkpoint0 = ''{step}-{'' @ dt_target_metric wrapper0 @ '':.4f}''"
proof -
  have r: "raises env_cpu = (\<lambda>n. False)"
    by (simp add: env_cpu_def)
  have cr: "creatable fs0 (original_cwd env_cpu) (checkpoint_dir cfg0)"
    by (simp add: eval_defs)
  have k0: "\<lparr> mc_monitor = ''12'', mc_dirpath = checkpoint_dir cfg0,
            mc_filename = ''{step}-{12:.4f}'', mc_verbose = True, mc_save_last = True,
            mc_every_n_train_steps = val_check_interval cfg0 + 1, mc_save_top_k = 2,
            mc_mode = ''max'', mc_save_weights_only = False \<rparr> = checkpoint0"
    by (simp add: checkpoint0_def checkpoint_dir_def cfg0_def)
  have m0: "\<lparr> dt_model = CRNN (PLATE_ALPHABET env_cpu), dt_optimizer_config = optimizer cfg0,
            dt_scheduler_config = scheduler cfg0, dt_target_metric = ''12'' \<rparr> = wrapper0"
    by (simp add: wrapper0_def env_cpu_def cfg0_def)
  note inst = single_metric_name [of cfg0 env_cpu cwd0 fs0, unfolded k0 m0]
  from inst r cr have m: "New_OCRDetectorTrainer wrapper0 \<in> set (run_trace cfg0 env_cpu cwd0 fs0)"
    and k: "New_ModelCheckpoint checkpoint0 \<in> set (run_trace cfg0 env_cpu cwd0 fs0)"
    by simp_all
  from inst m k have "dt_target_metric wrapper0 = mc_monitor checkpoint0
      \<and> mc_filename checkpoint0 = ''{step}-{'' @ dt_target_metric wrapper0 @ '':.4f}''"
    by metis
  with r cr m k show ?thesis by blast
qed

subsection \<open>Device selection\<close>

text \<open>
  C5. In a run whose calls up to the query return and whose directories can be
  created, the CUDA query is made. Without CUDA, such a run whose query returns calls
  \<open>warnings.warn\<close> exactly once, and when that call returns it goes on to build the
  trainer with \<open>gpus=None\<close>; no run warns more than once or builds a trainer with
  any other \<open>gpus\<close>. With CUDA, no run warns, and the trainer is built with
  \<open>gpus=-1\<close>. In neither case does the script itself end the run: when no call
  raises and the directories can be created, \<open>main\<close> returns.
\<close>

theorem device_selection:
  "(\<not> cuda_is_available e \<longrightarrow>
       (\<forall>t. New_Trainer t \<in> set (run_trace cfg e c f) \<longrightarrow> tr_gpus t = None)
     \<and> length (warnings (run_trace cfg e c f)) \<le> 1)
 \<and> (cuda_is_available e \<longrightarrow>
       (\<forall>t. New_Trainer t \<in> set (run_trace cfg e c f) \<longrightarrow> tr_gpus t = Some (- 1))
     \<and> warnings (run_trace cfg e c f) = [])
 \<and> ((\<forall>n<14. \<not> raises e n) \<and> creatable f (original_cwd e) (checkpoint_dir cfg)
       \<and> creatable f (original_cwd e) (log_dir cfg) \<longrightarrow>
       Cuda_is_available \<in> set (run_trace cfg e c f))
 \<and> (\<not> cuda_is_available e \<and> (\<forall>n<15. \<not> raises e n)
       \<and> creatable f (original_cwd e) (checkpoint_dir cfg)
       \<and> creatable f (original_cwd e) (log_dir cfg) \<longrightarrow>
       warnings (run_trace cfg e c f) = [''GPU is not available. Try train on CPU. It may will bew very slow''])
 \<and> (\<not> cuda_is_available e \<and> (\<forall>n<16. \<not> raises e n)
       \<and> creatable f (original_cwd e) (checkpoint_dir cfg)
       \<and> creatable f (original_cwd e) (log_dir cfg) \<longrightarrow>
       New_Trainer
          \<lparr> tr_amp_backend = ''native'', tr_gpus = None,
            tr_logger = TensorBoardLogger (path_str (log_dir cfg)),
            tr_auto_select_gpus = True, tr_benchmark = True,
            tr_check_val_every_n_epoch = check_val_every_n_epoch cfg,
            tr_flush_logs_every_n_steps = flush_logs_every_n_steps cfg,
            tr_default_root_dir = path_str (exp_dir cfg), tr_deterministic = False,
            tr_fast_dev_run = fast_dev_run cfg, tr_progress_bar_refresh_rate = 5,
            tr_precision = precision cfg, tr_max_epochs = max_epochs cfg,
            tr_val_check_interval = val_check_interval cfg,
            tr_callbacks =
              [CheckpointCallback
                 \<lparr> mc_monitor = ''12'', mc_dirpath = checkpoint_dir cfg,
                   mc_filename = ''{step}-{12:.4f}'', mc_verbose = True,
                   mc_save_last = True,
                   mc_every_n_train_steps = val_check_interval cfg + 1,
                   mc_save_top_k = 2, mc_mode = ''max'',
                   mc_save_weights_only = False \<rparr>,
               LrCallback (LearningRateMonitor ''step'')] \<rparr>
          \<in> set (run_trace cfg e c f))
 \<and> (cuda_is_available e \<and> (\<forall>n<15. \<not> raises e n)
       \<and> creatable f (original_cwd e) (checkpoint_dir cfg)
       \<and> creatable f (original_cwd e) (log_dir cfg) \<longrightarrow>
       New_Trainer
          \<lparr> tr_amp_backend = ''native'', tr_gpus = Some (- 1),
            tr_logger = TensorBoardLogger (path_str (log_dir cfg)),
            tr_auto_select_gpus = True, tr_benchmark = True,
            tr_check_val_every_n_epoch = check_val_every_n_epoch cfg,
            tr_flush_logs_every_n_steps = flush_logs_every_n_steps cfg,
            tr_default_root_dir = path_str (exp_dir cfg), tr_deterministic = False,
            tr_fast_dev_run = fast_dev_run cfg, tr_progress_bar_refresh_rate = 5,
            tr_precision = precision cfg, tr_max_epochs = max_epochs cfg,
            tr_val_check_interval = val_check_interval cfg,
            tr_callbacks =
              [CheckpointCallback
                 \<lparr> mc_monitor = ''12'', mc_dirpath = checkpoint_dir cfg,
                   mc_filename = ''{step}-{12:.4f}'', mc_verbose = True,
                   mc_save_last = True,
                   mc_every_n_train_steps = val_check_interval cfg + 1,
                   mc_save_top_k = 2, mc_mode = ''max'',
                   mc_save_weights_only = False \<rparr>,
               LrCallback (LearningRateMonitor ''step'')] \<rparr>
          \<in> set (run_trace cfg e c f))
 \<and> ((\<forall>n\<le>fit_index e. \<not> raises e n) \<and> creatable f (original_cwd e) (checkpoint_dir cfg)
       \<and> creatable f (original_cwd e) (log_dir cfg) \<longrightarrow>
       fst (run cfg e c f) = Inr ())"
proof -
  have a: "\<not> cuda_is_available e \<Longrightarrow>
       (\<forall>t. New_Trainer t \<in> set (run_trace cfg e c f) \<longrightarrow> tr_gpus t = None)"
    by (auto simp: run_defs split: run_splits)
  have a': "\<not> cuda_is_available e \<Longrightarrow> length (warnings (run_trace cfg e c f)) \<le> 1"
    by (simp add: run_defs warnings_def split: run_splits)
  have b: "cuda_is_available e \<Longrightarrow>
       (\<forall>t. New_Trainer t \<in> set (run_trace cfg e c f) \<longrightarrow> tr_gpus t = Some (- 1))"
    by (auto simp: run_defs split: run_splits)
  have b': "cuda_is_available e \<Longrightarrow> warnings (run_trace cfg e c f) = []"
    by (simp add: run_defs warnings_def split: run_splits)
  have q: "Cuda_is_available \<in> set (run_trace cfg e c f)"
    if r: "\<forall>n<14. \<not> raises e n" and cr: "creatable f (original_cwd e) (checkpoint_dir cfg)"
      and cl: "creatable f (original_cwd e) (log_dir cfg)"
  proof -
    from r have r': "\<And>n. n < 14 \<Longrightarrow> raises e n = False" by simp
    from r have m1: "\<And>n. n < 14 \<Longrightarrow>
        fst (mkdir_outcome e n f (original_cwd e) (joinpath (exp_dir cfg) ''checkpoint'')) = None"
      by (simp add: reach_checkpoint_mkdir [OF cr])
    from r have m2: "\<And>n m c' p'. n < 14 \<Longrightarrow>
        fst (mkdir_outcome e n (snd (mkdir_outcome e m f c' p'))
            (original_cwd e) (joinpath (exp_dir cfg) ''logs'')) = None"
      by (simp add: reach_logs_mkdir [OF cl])
    show ?thesis
      by (simp add: run_defs r' m1 m2 split: run_splits)
  qed
  have w: "warnings (run_trace cfg e c f) = [''GPU is not available. Try train on CPU. It may will bew very slow'']"
    if nc: "\<not> cuda_is_available e" and r: "\<forall>n<15. \<not> raises e n"
      and cr: "creatable f (original_cwd e) (checkpoint_dir cfg)"
      and cl: "creatable f (original_cwd e) (log_dir cfg)"
  proof -
    from r have r': "\<And>n. n < 15 \<Longrightarrow> raises e n = False" by simp
    from r have m1: "\<And>n. n < 15 \<Longrightarrow>
        fst (mkdir_outcome e n f (original_cwd e) (joinpath (exp_dir cfg) ''checkpoint'')) = None"
      by (simp add: reach_checkpoint_mkdir [OF cr])
    from r have m2: "\<And>n m c' p'. n < 15 \<Longrightarrow>
        fst (mkdir_outcome e n (snd (mkdir_outcome e m f c' p'))
            (original_cwd e) (joinpath (exp_dir cfg) ''logs'')) = None"
      by (simp add: reach_logs_mkdir [OF cl])
    show ?thesis
      by (simp add: run_defs r' m1 m2 nc warnings_def split: run_splits)
  qed
  have tn: "New_Trainer
          \<lparr> tr_amp_backend = ''native'', tr_gpus = None,
            tr_logger = TensorBoardLogger (path_str (log_dir cfg)),
            tr_auto_select_gpus = True, tr_benchmark = True,
            tr_check_val_every_n_epoch = check_val_every_n_epoch cfg,
            tr_flush_logs_every_n_steps = flush_logs_every_n_steps cfg,
            tr_default_root_dir = path_str (exp_dir cfg), tr_deterministic = False,
            tr_fast_dev_run = fast_dev_run cfg, tr_progress_bar_refresh_rate = 5,
            tr_precision = precision cfg, tr_max_epochs = max_epochs cfg,
            tr_val_check_interval = val_check_interval cfg,
            tr_callbacks =
              [CheckpointCallback
                 \<lparr> mc_monitor = ''12'', mc_dirpath = checkpoint_dir cfg,
                   mc_filename = ''{step}-{12:.4f}'', mc_verbose = True,
                   mc_save_last = True,
                   mc_every_n_train_steps = val_check_interval cfg + 1,
                   mc_save_top_k = 2, mc_mode = ''max'',
                   mc_save_weights_only = False \<rparr>,
               LrCallback (LearningRateMonitor ''step'')] \<rparr>
          \<in> set (run_trace cfg e c f)"
    if nc: "\<not> cuda_is_available e" and r: "\<forall>n<16. \<not> raises e n"
      and cr: "creatable f (original_cwd e) (checkpoint_dir cfg)"
      and cl: "creatable f (original_cwd e) (log_dir cfg)"
  proof -
    from r have r': "\<And>n. n < 16 \<Longrightarrow> raises e n = False" by simp
    from r have m1: "\<And>n. n < 16 \<Longrightarrow>
        fst (mkdir_outcome e n f (original_cwd e) (joinpath (exp_dir cfg) ''checkpoint'')) = None"
      by (simp add: reach_checkpoint_mkdir [OF cr])
    from r have m2: "\<And>n m c' p'. n < 16 \<Longrightarrow>
        fst (mkdir_outcome e n (snd (mkdir_outcome e m f c' p'))
            (original_cwd e) (joinpath (exp_dir cfg) ''logs'')) = None"
      by (simp add: reach_logs_mkdir [OF cl])
    show ?thesis
      by (simp add: run_defs r' m1 m2 nc target_metric_name_def filename_template_def
          checkpoint_dir_def log_dir_def split: run_splits)
  qed
  have tg: "New_Trainer
          \<lparr> tr_amp_backend = ''native'', tr_gpus = Some (- 1),
            tr_logger = TensorBoardLogger (path_str (log_dir cfg)),
            tr_auto_select_gpus = True, tr_benchmark = True,
            tr_check_val_every_n_epoch = check_val_every_n_epoch cfg,
            tr_flush_logs_every_n_steps = flush_logs_every_n_steps cfg,
            tr_default_root_dir = path_str (exp_dir cfg), tr_deterministic = False,
            tr_fast_dev_run = fast_dev_run cfg, tr_progress_bar_refresh_rate = 5,
            tr_precision = precision cfg, tr_max_epochs = max_epochs cfg,
            tr_val_check_interval = val_check_interval cfg,
            tr_callbacks =
              [CheckpointCallback
                 \<lparr> mc_monitor = ''12'', mc_dirpath = checkpoint_dir cfg,
                   mc_filename = ''{step}-{12:.4f}'', mc_verbose = True,
                   mc_save_last = True,
                   mc_every_n_train_steps = val_check_interval cfg + 1,
                   mc_save_top_k = 2, mc_mode = ''max'',
                   mc_save_weights_only = False \<rparr>,
               LrCallback (LearningRateMonitor ''step'')] \<rparr>
          \<in> set (run_trace cfg e c f)"
    if yc: "cuda_is_available e" and r: "\<forall>n<15. \<not> raises e n"
      and cr: "creatable f (original_cwd e) (checkpoint_dir cfg)"
      and cl: "creatable f (original_cwd e) (log_dir cfg)"
  proof -
    from r have r': "\<And>n. n < 15 \<Longrightarrow> raises e n = False" by simp
    from r have m1: "\<And>n. n < 15 \<Longrightarrow>
        fst (mkdir_outcome e n f (original_cwd e) (joinpath (exp_dir cfg) ''checkpoint'')) = None"
      by (simp add: reach_checkpoint_mkdir [OF cr])
    from r have m2: "\<And>n m c' p'. n < 15 \<Longrightarrow>
        fst (mkdir_outcome e n (snd (mkdir_outcome e m f c' p'))
            (original_cwd e) (joinpath (exp_dir cfg) ''logs'')) = None"
      by (simp add: reach_logs_mkdir [OF cl])
    show ?thesis
      by (simp add: run_defs r' m1 m2 yc target_metric_name_def filename_template_def
          checkpoint_dir_def log_dir_def split: run_splits)
  qed
  have g: "fst (run cfg e c f) = Inr ()"
    if "\<forall>n\<le>fit_index e. \<not> raises e n" "creatable f (original_cwd e) (checkpoint_dir cfg)"
      "creatable f (original_cwd e) (log_dir cfg)"
    using that run_completes(2) [of e f cfg c] by simp
  from a a' b b' q w tn tg g show ?thesis by blast
qed

theorem device_selection_witness:
  "\<not> cuda_is_available env_cpu
 \<and> raises env_cpu = (\<lambda>n. False)
 \<and> creatable fs0 (original_cwd env_cpu) (checkpoint_dir cfg0)
 \<and> creatable fs0 (original_cwd env_cpu) (log_dir cfg0)
 \<and> Cuda_is_available \<in> set (run_trace cfg0 env_cpu cwd0 fs0)
 \<and> warnings (run_trace cfg0 env_cpu cwd0 fs0) = [''GPU is not available. Try train on CPU. It may will bew very slow'']
 \<and> New_Trainer (trainer0 None) \<in> set (run_trace cfg0 env_cpu cwd0 fs0)
 \<and> fst (run cfg0 env_cpu cwd0 fs0) = Inr ()
 \<and> cuda_is_available env_gpu
 \<and> raises env_gpu = (\<lambda>n. False)
 \<and> New_Trainer (trainer0 (Some (- 1))) \<in> set (run_trace cfg0 env_gpu cwd0 fs0)
 \<and> warnings (run_trace cfg0 env_gpu cwd0 fs0) = []"
proof -
  have c: "\<not> cuda_is_available env_cpu" "cuda_is_available env_gpu"
    by (simp_all add: input_defs)
  have r: "raises env_cpu = (\<lambda>n. False)" "raises env_gpu = (\<lambda>n. False)"
    by (simp_all add: input_defs)
  have cr: "creatable fs0 (original_cwd env_cpu) (checkpoint_dir cfg0)"
    "creatable fs0 (original_cwd env_cpu) (log_dir cfg0)"
    "creatable fs0 (original_cwd env_gpu) (checkpoint_dir cfg0)"
    "creatable fs0 (original_cwd env_gpu) (log_dir cfg0)"
    by (simp_all add: eval_defs)
  have tn: "\<lparr> tr_amp_backend = ''native'', tr_gpus = None,
            tr_logger = TensorBoardLogger (path_str (log_dir cfg0)),
            tr_auto_select_gpus = True, tr_benchmark = True,
            tr_check_val_every_n_epoch = check_val_every_n_epoch cfg0,
            tr_flush_logs_every_n_steps = flush_logs_every_n_steps cfg0,
            tr_default_root_dir = path_str (exp_dir cfg0), tr_deterministic = False,
            tr_fast_dev_run = fast_dev_run cfg0, tr_progress_bar_refresh_rate = 5,
            tr_precision = precision cfg0, tr_max_epochs = max_epochs cfg0,
            tr_val_check_interval = val_check_interval cfg0,
            tr_callbacks =
              [CheckpointCallback
                 \<lparr> mc_monitor = ''12'', mc_dirpath = checkpoint_dir cfg0,
                   mc_filename = ''{step}-{12:.4f}'', mc_verbose = True,
                   mc_save_last = True,
                   mc_every_n_train_steps = val_check_interval cfg0 + 1,
                   mc_save_top_k = 2, mc_mode = ''max'',
                   mc_save_weights_only = False \<rparr>,
               LrCallback (LearningRateMonitor ''step'')] \<rparr> = trainer0 None"
    by (simp add: trainer0_def checkpoint0_def dir_defs cfg0_def)
  have tg: "\<lparr> tr_amp_backend = ''native'', tr_gpus = Some (- 1),
            tr_logger = TensorBoardLogger (path_str (log_dir cfg0)),
            tr_auto_select_gpus = True, tr_benchmark = True,
            tr_check_val_every_n_epoch = check_val_every_n_epoch cfg0,
            tr_flush_logs_every_n_steps = flush_logs_every_n_steps cfg0,
            tr_default_root_dir = path_str (exp_dir cfg0), tr_deterministic = False,
            tr_fast_dev_run = fast_dev_run cfg0, tr_progress_bar_refresh_rate = 5,
            tr_precision = precision cfg0, tr_max_epochs = max_epochs cfg0,
            tr_val_check_interval = val_check_interval cfg0,
            tr_callbacks =
              [CheckpointCallback
                 \<lparr> mc_monitor = ''12'', mc_dirpath = checkpoint_dir cfg0,
                   mc_filename = ''{step}-{12:.4f}'', mc_verbose = True,
                   mc_save_last = True,
                   mc_every_n_train_steps = val_check_interval cfg0 + 1,
                   mc_save_top_k = 2, mc_mode = ''max'',
                   mc_save_weights_only = False \<rparr>,
               LrCallback (LearningRateMonitor ''step'')] \<rparr> = trainer0 (Some (- 1))"
    by (simp add: trainer0_def checkpoint0_def dir_defs cfg0_def)
  note cpu = device_selection [of env_cpu cfg0 cwd0 fs0, unfolded tn]
  note gpu = device_selection [of env_gpu cfg0 cwd0 fs0, unfolded tg]
  from cpu c(1) r(1) cr(1,2)
  have 1: "Cuda_is_available \<in> set (run_trace cfg0 env_cpu cwd0 fs0)"
    and 2: "warnings (run_trace cfg0 env_cpu cwd0 fs0) = [''GPU is not available. Try train on CPU. It may will bew very slow'']"
    and 3: "New_Trainer (trainer0 None) \<in> set (run_trace cfg0 env_cpu cwd0 fs0)"
    and 4: "fst (run cfg0 env_cpu cwd0 fs0) = Inr ()"
    by simp_all
  from gpu c(2) r(2) cr(3,4)
  have 5: "New_Trainer (trainer0 (Some (- 1))) \<in> set (run_trace cfg0 env_gpu cwd0 fs0)"
    and 6: "warnings (run_trace cfg0 env_gpu cwd0 fs0) = []"
    by simp_all
  from c r cr(1,2) 1 2 3 4 5 6 show ?thesis by blast
qed

subsection \<open>The experiment directories\<close>

text \<open>
  C6. In every run that reaches \<open>fit\<close>, the \<open>checkpoint\<close> and \<open>logs\<close>
  directories under the experiment directory exist, whatever \<open>fit\<close> then does, and
  both \<open>mkdir\<close> calls come before the \<open>fit\<close> call. Directories that are already
  there make no \<open>mkdir\<close> fail for their being there, and the file system stays as it
  was. When the calls before \<open>fit\<close> return and no file stands in the way, the run
  reaches \<open>fit\<close>.
\<close>

theorem experiment_dirs_exist:
  "(fit_invoked (run_trace cfg e c f) \<longrightarrow>
       is_dir (fs (snd (run cfg e c f))) (checkpoint_path cfg e)
     \<and> is_dir (fs (snd (run cfg e c f))) (logs_path cfg e))
 \<and> (\<forall>pre x post. run_trace cfg e c f = pre @ x # post \<and> is_fit x \<longrightarrow>
       Path_mkdir (checkpoint_dir cfg) \<in> set pre
     \<and> Path_mkdir (log_dir cfg) \<in> set pre)
 \<and> (is_dir f (checkpoint_path cfg e) \<and> is_dir f (logs_path cfg e) \<longrightarrow>
       fs (snd (run cfg e c f)) = f
     \<and> fst (run cfg e c f) \<noteq> Inl (OSError FileExistsError)
     \<and> fst (run cfg e c f) \<noteq> Inl (OSError NotADirectoryError)
     \<and> fst (run cfg e c f) \<noteq> Inl (OSError FileNotFoundError))
 \<and> ((\<forall>n<fit_index e. \<not> raises e n) \<and> creatable f (original_cwd e) (checkpoint_dir cfg)
       \<and> creatable f (original_cwd e) (log_dir cfg) \<longrightarrow>
       fit_invoked (run_trace cfg e c f))"
proof -
  have a: "fit_invoked (run_trace cfg e c f) \<Longrightarrow>
       is_dir (fs (snd (run cfg e c f))) (checkpoint_path cfg e)
     \<and> is_dir (fs (snd (run cfg e c f))) (logs_path cfg e)"
    by (auto simp: run_defs fit_invoked_def is_fit_def dir_defs
        split: run_splits
        intro: mkdir_outcome_is_dir mkdir_outcome_keeps_is_dir)
  have g1: "list_all (\<lambda>x. \<not> is_fit x)
             (takeWhile (\<lambda>x. x \<noteq> Path_mkdir (checkpoint_dir cfg)) (run_trace cfg e c f))"
    by (simp add: run_defs is_fit_def checkpoint_dir_def split: run_splits)
  have g2: "list_all (\<lambda>x. \<not> is_fit x)
             (takeWhile (\<lambda>x. x \<noteq> Path_mkdir (log_dir cfg)) (run_trace cfg e c f))"
    by (simp add: run_defs is_fit_def log_dir_def split: run_splits)
  have n: "\<And>p. \<not> is_fit (Path_mkdir p :: ('a, 'b) call)"
    by (simp add: is_fit_def)
  have b: "\<forall>pre x post. run_trace cfg e c f = pre @ x # post \<and> is_fit x \<longrightarrow>
       Path_mkdir (checkpoint_dir cfg) \<in> set pre
     \<and> Path_mkdir (log_dir cfg) \<in> set pre"
    using before_first [OF g1 _ _ n] before_first [OF g2 _ _ n] by blast
  have d: "fs (snd (run cfg e c f)) = f
     \<and> fst (run cfg e c f) \<noteq> Inl (OSError FileExistsError)
     \<and> fst (run cfg e c f) \<noteq> Inl (OSError NotADirectoryError)
     \<and> fst (run cfg e c f) \<noteq> Inl (OSError FileNotFoundError)"
    if dk: "is_dir f (checkpoint_path cfg e)" and dl: "is_dir f (logs_path cfg e)"
  proof -
    from dk have k: "is_dir f (absolute (original_cwd e) (joinpath (exp_dir cfg) ''checkpoint''))"
      by (simp add: dir_defs)
    from dl have l: "is_dir f (absolute (original_cwd e) (joinpath (exp_dir cfg) ''logs''))"
      by (simp add: dir_defs)
    note s1 = mkdir_outcome_existing(1) [OF k] and s2 = mkdir_outcome_existing(1) [OF l]
    have e1: "\<And>n x. fst (mkdir_outcome e n f (original_cwd e)
                 (joinpath (exp_dir cfg) ''checkpoint'')) = Some x \<Longrightarrow> x = OtherOSError"
      using mkdir_outcome_existing(2) [OF k, of e] by (metis option.distinct(1) option.inject)
    have e2: "\<And>n x. fst (mkdir_outcome e n f (original_cwd e)
                 (joinpath (exp_dir cfg) ''logs'')) = Some x \<Longrightarrow> x = OtherOSError"
      using mkdir_outcome_existing(2) [OF l, of e] by (metis option.distinct(1) option.inject)
    show ?thesis
      by (auto simp: run_defs s1 s2 split: run_splits dest: e1 e2)
  qed
  have g: "fit_invoked (run_trace cfg e c f)"
    if "\<forall>n<fit_index e. \<not> raises e n" "creatable f (original_cwd e) (checkpoint_dir cfg)"
      "creatable f (original_cwd e) (log_dir cfg)"
    using that run_completes(1) [of e f cfg c] by simp
  from a b d g show ?thesis by blast
qed

theorem experiment_dirs_exist_witness:
  "raises env_fit_fails = (\<lambda>n. n = 17)
 \<and> fit_index env_fit_fails = 17
 \<and> creatable fs0 (original_cwd env_fit_fails) (checkpoint_dir cfg0)
 \<and> creatable fs0 (original_cwd env_fit_fails) (log_dir cfg0)
 \<and> fit_invoked (run_trace cfg0 env_fit_fails cwd0 fs0)
 \<and> fst (run cfg0 env_fit_fails cwd0 fs0) \<noteq> Inr ()
 \<and> is_dir (fs (snd (run cfg0 env_fit_fails cwd0 fs0))) [''home'', ''user'', ''exp'', ''checkpoint'']
 \<and> is_dir (fs (snd (run cfg0 env_fit_fails cwd0 fs0))) [''home'', ''user'', ''exp'', ''logs'']
 \<and> is_dir fs_exp (checkpoint_path cfg0 env_cpu)
 \<and> is_dir fs_exp (logs_path cfg0 env_cpu)
 \<and> fs (snd (run cfg0 env_cpu cwd0 fs_exp)) = fs_exp
 \<and> is_dir (fs (snd (run cfg_up env_cpu cwd0 fs0))) [''home'', ''user'', ''..'', ''exp2'', ''logs'']"
proof -
  have r: "raises env_fit_fails = (\<lambda>n. n = 17)" "fit_index env_fit_fails = 17"
    "raises env_cpu = (\<lambda>n. False)"
    by (simp_all add: input_defs fit_index_def)
  have cr: "creatable fs0 (original_cwd env_fit_fails) (checkpoint_dir cfg0)"
    "creatable fs0 (original_cwd env_fit_fails) (log_dir cfg0)"
    "creatable fs0 (original_cwd env_cpu) (checkpoint_dir cfg_up)"
    "creatable fs0 (original_cwd env_cpu) (log_dir cfg_up)"
    by (simp_all add: eval_defs)
  have x: "fst (run cfg0 env_fit_fails cwd0 fs0) \<noteq> Inr ()"
    by (simp add: eval_defs)
  have p: "checkpoint_path cfg0 env_fit_fails = [''home'', ''user'', ''exp'', ''checkpoint'']"
    "logs_path cfg0 env_fit_fails = [''home'', ''user'', ''exp'', ''logs'']"
    "logs_path cfg_up env_cpu = [''home'', ''user'', ''..'', ''exp2'', ''logs'']"
    by (simp_all add: input_defs dir_defs)
  have d: "is_dir fs_exp (checkpoint_path cfg0 env_cpu)" "is_dir fs_exp (logs_path cfg0 env_cpu)"
    by (simp_all add: input_defs dir_defs is_dir_def)
  note fails = experiment_dirs_exist [of cfg0 env_fit_fails cwd0 fs0, unfolded p]
  from fails r(1,2) cr(1,2) have i: "fit_invoked (run_trace cfg0 env_fit_fails cwd0 fs0)"
    by simp
  with fails
  have 1: "is_dir (fs (snd (run cfg0 env_fit_fails cwd0 fs0))) [''home'', ''user'', ''exp'', ''checkpoint'']"
    and 2: "is_dir (fs (snd (run cfg0 env_fit_fails cwd0 fs0))) [''home'', ''user'', ''exp'', ''logs'']"
    by blast+
  from experiment_dirs_exist [of cfg0 env_cpu cwd0 fs_exp] d
  have 3: "fs (snd (run cfg0 env_cpu cwd0 fs_exp)) = fs_exp"
    by blast
  note up = experiment_dirs_exist [of cfg_up env_cpu cwd0 fs0, unfolded p]
  from up r(3) cr(3,4)
  have 4: "is_dir (fs (snd (run cfg_up env_cpu cwd0 fs0))) [''home'', ''user'', ''..'', ''exp2'', ''logs'']"
    by simp
  from r(1,2) cr(1,2) i x d 1 2 3 4 show ?thesis by blast
qed

subsection \<open>Seeding\<close>

text \<open>
  C7. \<open>seed_everything\<close> is never called twice; in every run that gets past its first
  statement it is called exactly once, with the configured seed; and every construction
  of a model, a transform pipeline or a data module has that call before it.
\<close>

theorem seeding_once_before_consumers:
  "length (seeds (run_trace cfg e c f)) \<le> 1
 \<and> (\<not> raises e 0 \<longrightarrow> seeds (run_trace cfg e c f) = [seed cfg])
 \<and> (\<forall>pre x post. run_trace cfg e c f = pre @ x # post \<and> is_consumer x \<longrightarrow>
        Seed_everything (seed cfg) \<in> set pre)"
proof -
  have a: "length (seeds (run_trace cfg e c f)) \<le> 1"
    by (simp add: run_defs seeds_def split: run_splits)
  have b: "\<not> raises e 0 \<Longrightarrow> seeds (run_trace cfg e c f) = [seed cfg]"
    by (simp add: run_defs seeds_def split: run_splits)
  have g: "list_all (\<lambda>x. \<not> is_consumer x)
             (takeWhile (\<lambda>x. x \<noteq> Seed_everything (seed cfg)) (run_trace cfg e c f))"
    by (simp add: run_defs is_consumer_def split: run_splits)
  have n: "\<not> is_consumer (Seed_everything (seed cfg) :: ('a, 'b) call)"
    by (simp add: is_consumer_def)
  from a b before_first [OF g _ _ n] show ?thesis by blast
qed

theorem seeding_once_before_consumers_witness:
  "\<not> raises env_cpu 0
 \<and> seeds (run_trace cfg0 env_cpu cwd0 fs0) = [42]
 \<and> run_trace cfg0 env_cpu cwd0 fs0
     = [Os_chdir [''home'', ''user''], Seed_everything 42]
       @ New_CRNN ''0123456789ABCEHKMOPTXY'' # drop 3 (run_trace cfg0 env_cpu cwd0 fs0)
 \<and> is_consumer (New_CRNN ''0123456789ABCEHKMOPTXY'' :: (string, string) call)
 \<and> Seed_everything 42 \<in> set [Os_chdir [''home'', ''user''], Seed_everything 42 :: (string, string) call]"
proof -
  have r: "\<not> raises env_cpu 0"
    by (simp add: input_defs)
  have s: "seed cfg0 = 42"
    by (simp add: cfg0_def)
  have t: "run_trace cfg0 env_cpu cwd0 fs0
     = [Os_chdir [''home'', ''user''], Seed_everything 42]
       @ New_CRNN ''0123456789ABCEHKMOPTXY'' # drop 3 (run_trace cfg0 env_cpu cwd0 fs0)"
    by (simp add: eval_defs)
  have c: "is_consumer (New_CRNN ''0123456789ABCEHKMOPTXY'' :: (string, string) call)"
    by (simp add: is_consumer_def)
  from seeding_once_before_consumers [of cfg0 env_cpu cwd0 fs0] r s t c
  show ?thesis by metis
qed

text \<open>
  C9. The seed given to \<open>seed_everything\<close> and the seed given to the data module are
  both the configured seed. \<open>seed_everything\<close> is called with it in every run whose
  first call returns, and the data module is built with it in every run whose first
  seven calls return; a data module is only ever built with the seed that was given to
  \<open>seed_everything\<close> earlier in the same run.
\<close>

theorem single_seed:
  "(\<forall>s. Seed_everything s \<in> set (run_trace cfg e c f) \<longrightarrow> s = seed cfg)
 \<and> (\<forall>d. New_OCRDetectionDataModule d \<in> set (run_trace cfg e c f) \<longrightarrow>
        dm_seed d = seed cfg
      \<and> Seed_everything (dm_seed d) \<in> set (run_trace cfg e c f))
 \<and> (\<not> raises e 0 \<longrightarrow> Seed_everything (seed cfg) \<in> set (run_trace cfg e c f))
 \<and> ((\<forall>n<7. \<not> raises e n) \<longrightarrow>
        New_OCRDetectionDataModule
          \<lparr> dm_image_dir = image_dir (ocr cfg),
            dm_train_batch_size = train_batch_size (ocr cfg),
            dm_valid_batch_size = valid_batch_size (ocr cfg),
            dm_seed = seed cfg, dm_train_size = train_size cfg,
            dm_num_workers = num_workers cfg,
            dm_train_transforms =
              AugTransform (Compose (aug_transforms @ ocr_valid_transform_list e)),
            dm_val_transforms = AugTransform (Compose (ocr_valid_transform_list e)) \<rparr>
          \<in> set (run_trace cfg e c f))"
proof -
  have a: "\<forall>s. Seed_everything s \<in> set (run_trace cfg e c f) \<longrightarrow> s = seed cfg"
    by (auto simp: run_defs split: run_splits)
  have b: "\<forall>d. New_OCRDetectionDataModule d \<in> set (run_trace cfg e c f) \<longrightarrow>
        dm_seed d = seed cfg
      \<and> Seed_everything (dm_seed d) \<in> set (run_trace cfg e c f)"
    by (auto simp: run_defs split: run_splits)
  have d: "\<not> raises e 0 \<Longrightarrow> Seed_everything (seed cfg) \<in> set (run_trace cfg e c f)"
    by (simp add: run_defs split: run_splits)
  have g: "New_OCRDetectionDataModule
          \<lparr> dm_image_dir = image_dir (ocr cfg),
            dm_train_batch_size = train_batch_size (ocr cfg),
            dm_valid_batch_size = valid_batch_size (ocr cfg),
            dm_seed = seed cfg, dm_train_size = train_size cfg,
            dm_num_workers = num_workers cfg,
            dm_train_transforms =
              AugTransform (Compose (aug_transforms @ ocr_valid_transform_list e)),
            dm_val_transforms = AugTransform (Compose (ocr_valid_transform_list e)) \<rparr>
          \<in> set (run_trace cfg e c f)"
    if r: "\<forall>n<7. \<not> raises e n"
  proof -
    from r have r': "\<And>n. n < 7 \<Longrightarrow> raises e n = False" by simp
    show ?thesis
      by (simp add: run_defs r' split: run_splits)
  qed
  from a b d g show ?thesis by blast
qed

theorem single_seed_witness:
  "raises env_cpu = (\<lambda>n. False)
 \<and> Seed_everything 42 \<in> set (run_trace cfg0 env_cpu cwd0 fs0)
 \<and> New_OCRDetectionDataModule data0 \<in> set (run_trace cfg0 env_cpu cwd0 fs0)
 \<and> seed cfg0 = 42
 \<and> dm_seed data0 = seed cfg0"
proof -
  have r: "raises env_cpu = (\<lambda>n. False)"
    by (simp add: env_cpu_def)
  have s0: "seed cfg0 = 42"
    by (simp add: cfg0_def)
  have d0: "\<lparr> dm_image_dir = image_dir (ocr cfg0),
            dm_train_batch_size = train_batch_size (ocr cfg0),
            dm_valid_batch_size = valid_batch_size (ocr cfg0),
            dm_seed = seed cfg0, dm_train_size = train_size cfg0,
            dm_num_workers = num_workers cfg0,
            dm_train_transforms =
              AugTransform (Compose (aug_transforms @ ocr_valid_transform_list env_cpu)),
            dm_val_transforms = AugTransform (Compose (ocr_valid_transform_list env_cpu)) \<rparr>
          = data0"
    by (simp add: data0_def train0_def valid0_def cfg0_def env_cpu_def)
  note inst = single_seed [of cfg0 env_cpu cwd0 fs0, unfolded d0]
  from inst r have s: "Seed_everything (seed cfg0) \<in> set (run_trace cfg0 env_cpu cwd0 fs0)"
    and d: "New_OCRDetectionDataModule data0 \<in> set (run_trace cfg0 env_cpu cwd0 fs0)"
    by simp_all
  from inst d have "dm_seed data0 = seed cfg0"
    by blast
  with r s d s0 show ?thesis by simp
qed

subsection \<open>The working directory\<close>

text \<open>
  C8. The first call of every run is \<open>os.chdir\<close> to the original working directory.
  When it returns, the working directory is that directory and the rest of the run no
  longer depends on the directory the process was in before; a relative experiment
  directory is then created under the original one. When it raises, nothing else has
  been done.
\<close>

theorem chdir_first:
  "(\<exists>rest. run_trace cfg e c f = Os_chdir (original_cwd e) # rest)
 \<and> (\<not> raises e 0 \<longrightarrow>
        cwd (snd (run cfg e c f)) = original_cwd e
      \<and> run cfg e c f = run cfg e c' f)
 \<and> (raises e 0 \<longrightarrow>
        run cfg e c f = (Inl (Raised (Os_chdir (original_cwd e))),
                         \<lparr>cwd = c, fs = f, trace = [Os_chdir (original_cwd e)]\<rparr>))
 \<and> (\<forall>ds. exp_dir cfg = Rel ds \<and> fit_invoked (run_trace cfg e c f) \<longrightarrow>
        is_dir (fs (snd (run cfg e c f))) (original_cwd e @ ds @ [''checkpoint''])
      \<and> is_dir (fs (snd (run cfg e c f))) (original_cwd e @ ds @ [''logs'']))"
proof -
  have a: "\<exists>rest. run_trace cfg e c f = Os_chdir (original_cwd e) # rest"
    by (simp add: run_defs split: run_splits)
  have b: "\<not> raises e 0 \<Longrightarrow> cwd (snd (run cfg e c f)) = original_cwd e"
    by (simp add: run_defs split: run_splits)
  have b': "\<not> raises e 0 \<Longrightarrow> run cfg e c f = run cfg e c' f"
    by (simp add: run_defs split: run_splits)
  have d: "raises e 0 \<Longrightarrow> run cfg e c f = (Inl (Raised (Os_chdir (original_cwd e))),
                         \<lparr>cwd = c, fs = f, trace = [Os_chdir (original_cwd e)]\<rparr>)"
    by (simp add: run_defs)
  have g: "\<And>ds. exp_dir cfg = Rel ds \<Longrightarrow> fit_invoked (run_trace cfg e c f) \<Longrightarrow>
        is_dir (fs (snd (run cfg e c f))) (original_cwd e @ ds @ [''checkpoint''])
      \<and> is_dir (fs (snd (run cfg e c f))) (original_cwd e @ ds @ [''logs''])"
  proof -
    fix ds
    assume x: "exp_dir cfg = Rel ds" and i: "fit_invoked (run_trace cfg e c f)"
    have k: "absolute (original_cwd e) (joinpath (Rel ds) ''checkpoint'')
               = original_cwd e @ ds @ [''checkpoint'']"
      and l: "absolute (original_cwd e) (joinpath (Rel ds) ''logs'')
               = original_cwd e @ ds @ [''logs'']"
      by simp_all
    from i show "is_dir (fs (snd (run cfg e c f))) (original_cwd e @ ds @ [''checkpoint''])
      \<and> is_dir (fs (snd (run cfg e c f))) (original_cwd e @ ds @ [''logs''])"
      unfolding k [symmetric] l [symmetric]
      by (auto simp: run_defs fit_invoked_def is_fit_def x
          simp del: absolute.simps joinpath.simps
          split: run_splits
          intro: mkdir_outcome_is_dir mkdir_outcome_keeps_is_dir)
  qed
  from a b b' d g show ?thesis by blast
qed

theorem chdir_first_witness:
  "\<not> raises env_cpu 0
 \<and> cwd (snd (run cfg0 env_cpu cwd0 fs0)) = [''home'', ''user'']
 \<and> run cfg0 env_cpu cwd0 fs0 = run cfg0 env_cpu [''tmp''] fs0
 \<and> exp_dir cfg0 = Rel [''exp'']
 \<and> fit_invoked (run_trace cfg0 env_cpu cwd0 fs0)
 \<and> is_dir (fs (snd (run cfg0 env_cpu cwd0 fs0))) [''home'', ''user'', ''exp'', ''checkpoint'']
 \<and> is_dir (fs (snd (run cfg0 env_cpu cwd0 fs0))) [''home'', ''user'', ''exp'', ''logs'']
 \<and> raises env_chdir_fails 0
 \<and> run_trace cfg0 env_chdir_fails cwd0 fs0 = [Os_chdir [''home'', ''user'']]"
proof -
  have r: "\<not> raises env_cpu 0" "raises env_chdir_fails 0"
    by (simp_all add: input_defs)
  have o: "original_cwd env_cpu = [''home'', ''user'']"
    "original_cwd env_chdir_fails = [''home'', ''user'']"
    by (simp_all add: input_defs)
  have x: "exp_dir cfg0 = Rel [''exp'']"
    by (simp add: cfg0_def)
  have i: "fit_invoked (run_trace cfg0 env_cpu cwd0 fs0)"
    by (simp add: eval_defs fit_invoked_def is_fit_def)
  note inst = chdir_first [of cfg0 env_cpu cwd0 fs0 "[''tmp'']"]
  from inst r(1) o(1)
  have 1: "cwd (snd (run cfg0 env_cpu cwd0 fs0)) = [''home'', ''user'']"
    by metis
  from inst r(1)
  have 2: "run cfg0 env_cpu cwd0 fs0 = run cfg0 env_cpu [''tmp''] fs0"
    by blast
  from inst x i
  have "is_dir (fs (snd (run cfg0 env_cpu cwd0 fs0)))
          (original_cwd env_cpu @ [''exp''] @ [''checkpoint''])
      \<and> is_dir (fs (snd (run cfg0 env_cpu cwd0 fs0)))
          (original_cwd env_cpu @ [''exp''] @ [''logs''])"
    by blast
  then have 3: "is_dir (fs (snd (run cfg0 env_cpu cwd0 fs0))) [''home'', ''user'', ''exp'', ''checkpoint'']"
    and 4: "is_dir (fs (snd (run cfg0 env_cpu cwd0 fs0))) [''home'', ''user'', ''exp'', ''logs'']"
    by (simp_all add: o)
  from chdir_first [of cfg0 env_chdir_fails cwd0 fs0 "[''tmp'']"] r(2) o(2)
  have 5: "run_trace cfg0 env_chdir_fails cwd0 fs0 = [Os_chdir [''home'', ''user'']]"
    by simp
  from r x i 1 2 3 4 5 show ?thesis by blast
qed

end
